theory Spec2Isabelle
  imports Complex_Main "HOL-Library.Log_Nat"
begin

section \<open>Run summaries and the run catalog (allureReportFetcher.js)\<close>

text \<open>
  The server reads Allure result files from object storage and reduces each run to a
  summary. The storage service and the clock are outside the program, so they enter the
  model as an environment: what each listing returns, what each object parses to, and what
  each call of \<^verbatim>\<open>Date.now()\<close> reads. A rejected promise is \<open>Inl\<close> with the message
  of the error, a fulfilled one is \<open>Inr\<close>.

  A parsed result file is kept as the three fields the summary reads. A field that is
  absent (or \<^verbatim>\<open>null\<close>) is \<open>None\<close>; timestamps are integer milliseconds, as Allure
  writes them. \<open>status\<close> is \<open>None\<close> as well when it is present but not a string, since
  \<^verbatim>\<open>===\<close> against a string literal is then false. A parsed value that is truthy but no
  object (a number, a string) reads as a record with all three fields absent.
\<close>

type_synonym 'a outcome = "string + 'a"

record test_result =
  status :: "string option"
  start :: "int option"
  stop :: "int option"

text \<open>
  What \<^verbatim>\<open>JSON.parse\<close> gave for one file: a falsy value (\<^verbatim>\<open>null\<close>, \<^verbatim>\<open>0\<close>,
  \<^verbatim>\<open>false\<close>, \<^verbatim>\<open>""\<close>) or a truthy one.
\<close>

datatype parsed = Falsy | Truthy test_result

datatype js_number = Num int | Infinity | NegInfinity | NaN

record statistic =
  total :: int
  passed :: int
  failed :: int
  broken :: int
  skipped :: int

text \<open>A time bound is \<^verbatim>\<open>null\<close> (\<open>None\<close>) or a number.\<close>

record time_bounds =
  start :: "js_number option"
  stop :: "js_number option"

record run_summary =
  statistic :: statistic
  time :: time_bounds
  totalFiles :: int

record 's report =
  runId :: string
  summary :: 's

text \<open>
  The environment of the fetcher. \<open>list_prefixes\<close> is the reply to the listing with
  \<^verbatim>\<open>Delimiter: "/"\<close> (its \<^verbatim>\<open>CommonPrefixes\<close>, \<open>None\<close> when the field is missing);
  \<open>list_objects p\<close> is the reply to the listing under prefix \<open>p\<close> (the keys of its
  \<^verbatim>\<open>Contents\<close>); \<open>get_object k\<close> is \<open>None\<close> when fetching or parsing the object at key
  \<open>k\<close> throws, and the parsed value otherwise; \<open>date_now e n\<close> is what the \<open>n\<close>-th call
  of \<^verbatim>\<open>Date.now()\<close> reads while run \<open>e\<close> is summarized.
\<close>

record s3_env =
  list_prefixes :: "string list option outcome"
  list_objects :: "string \<Rightarrow> string list option outcome"
  get_object :: "string \<Rightarrow> parsed option"
  date_now :: "string \<Rightarrow> nat \<Rightarrow> int"

subsection \<open>JavaScript primitives\<close>

definition endsWith :: "string \<Rightarrow> string \<Rightarrow> bool" where
  "endsWith s suf \<longleftrightarrow> length suf \<le> length s \<and> drop (length s - length suf) s = suf"

text \<open>\<^verbatim>\<open>s.replace(pat, rep)\<close> with a string pattern: the first occurrence only.\<close>

fun replace_first :: "string \<Rightarrow> string \<Rightarrow> string \<Rightarrow> string" where
  "replace_first [] pat rep = (if pat = [] then rep else [])"
| "replace_first (c # cs) pat rep =
     (if take (length pat) (c # cs) = pat then rep @ drop (length pat) (c # cs)
      else c # replace_first cs pat rep)"

text \<open>\<^verbatim>\<open>s.replace(/\/$/, "")\<close>: one trailing slash is removed.\<close>

definition strip_trailing_slash :: "string \<Rightarrow> string" where
  "strip_trailing_slash s = (if s \<noteq> [] \<and> last s = CHR ''/'' then butlast s else s)"

text \<open>The decimal digits of a natural number, as a template literal and
  \<^verbatim>\<open>toFixed\<close> print them.\<close>

fun decimal :: "nat \<Rightarrow> string" where
  "decimal n =
     (if n < 10 then [''0123456789'' ! n]
      else decimal (n div 10) @ [''0123456789'' ! (n mod 10)])"

declare decimal.simps [simp del]

text \<open>A timestamp is truthy unless it is absent or \<open>0\<close>.\<close>

definition truthy :: "int option \<Rightarrow> bool" where
  "truthy t \<longleftrightarrow> t \<noteq> None \<and> t \<noteq> Some 0"

text \<open>
  \<^verbatim>\<open>xs.map((r) => r.f || Date.now())\<close>: the clock is read once for each falsy field, in
  list order; the counter of readings is passed along and returned.
\<close>

fun or_now :: "(nat \<Rightarrow> int) \<Rightarrow> nat \<Rightarrow> int option list \<Rightarrow> int list \<times> nat" where
  "or_now clock n [] = ([], n)"
| "or_now clock n (t # ts) =
     (if truthy t then (let (vs, m) = or_now clock n ts in (the t # vs, m))
      else (let (vs, m) = or_now clock (Suc n) ts in (clock n # vs, m)))"

text \<open>\<^verbatim>\<open>Math.min(...xs)\<close> and \<^verbatim>\<open>Math.max(...xs)\<close> on integers; no argument gives
  \<^verbatim>\<open>Infinity\<close> and \<^verbatim>\<open>-Infinity\<close>.\<close>

fun Math_min :: "int list \<Rightarrow> js_number" where
  "Math_min [] = Infinity"
| "Math_min (x # xs) = Num (fold min xs x)"

fun Math_max :: "int list \<Rightarrow> js_number" where
  "Math_max [] = NegInfinity"
| "Math_max (x # xs) = Num (fold max xs x)"

subsection \<open>fetchSummary\<close>

definition resultFiles :: "string list option \<Rightarrow> string list" where
  "resultFiles contents =
     (case contents of None \<Rightarrow> [] | Some keys \<Rightarrow> filter (\<lambda>k. endsWith k ''-result.json'') keys)"

text \<open>\<^verbatim>\<open>results.filter(Boolean)\<close>: failures (\<^verbatim>\<open>null\<close>) and falsy values are dropped.\<close>

fun cleanResults :: "parsed option list \<Rightarrow> test_result list" where
  "cleanResults [] = []"
| "cleanResults (Some (Truthy r) # xs) = r # cleanResults xs"
| "cleanResults (_ # xs) = cleanResults xs"

definition count_status :: "test_result list \<Rightarrow> string \<Rightarrow> int" where
  "count_status rs s = int (length (filter (\<lambda>r. status r = Some s) rs))"

text \<open>The object returned at the end of \<^verbatim>\<open>fetchSummary\<close>, from the clean results and
  the number of result files. The start times are mapped before the stop times.\<close>

definition summarize :: "(nat \<Rightarrow> int) \<Rightarrow> test_result list \<Rightarrow> nat \<Rightarrow> run_summary" where
  "summarize clock clean nfiles =
     (let (starts, n) = or_now clock 0 (map test_result.start clean);
          (stops, m) = or_now clock n (map test_result.stop clean)
      in \<lparr>statistic = \<lparr>total = int (length clean),
                        passed = count_status clean ''passed'',
                        failed = count_status clean ''failed'',
                        broken = count_status clean ''broken'',
                        skipped = count_status clean ''skipped''\<rparr>,
          time = \<lparr>start = Some (Math_min starts), stop = Some (Math_max stops)\<rparr>,
          totalFiles = int nfiles\<rparr>)"

definition empty_summary :: run_summary where
  "empty_summary =
     \<lparr>statistic = \<lparr>total = 0, passed = 0, failed = 0, broken = 0, skipped = 0\<rparr>,
      time = \<lparr>start = None, stop = None\<rparr>,
      totalFiles = 0\<rparr>"

definition fetchSummary :: "s3_env \<Rightarrow> string \<Rightarrow> run_summary outcome" where
  "fetchSummary env execId =
     (case list_objects env (''reports/'' @ execId @ ''/'') of
        Inl e \<Rightarrow> Inl e
      | Inr contents \<Rightarrow>
          (let files = resultFiles contents in
           if length files = 0 then Inr empty_summary
           else Inr (summarize (date_now env execId)
                       (cleanResults (map (get_object env) files)) (length files))))"

subsection \<open>listAllReports\<close>

definition runId_of_prefix :: "string \<Rightarrow> string" where
  "runId_of_prefix p = strip_trailing_slash (replace_first p ''reports/'' '''')"

text \<open>The loop over the run identifiers: the summaries are fetched one after the other and
  pushed onto \<open>reports\<close>; a rejected \<^verbatim>\<open>fetchSummary\<close> leaves the loop and the function.\<close>

fun fetch_each :: "s3_env \<Rightarrow> string list \<Rightarrow> run_summary report list \<Rightarrow> run_summary report list outcome" where
  "fetch_each env [] reports = Inr reports"
| "fetch_each env (r # rs) reports =
     (case fetchSummary env r of
        Inl e \<Rightarrow> Inl e
      | Inr s \<Rightarrow> fetch_each env rs (reports @ [\<lparr>runId = r, summary = s\<rparr>]))"

definition runIds :: "string list option \<Rightarrow> string list" where
  "runIds prefixes = (case prefixes of None \<Rightarrow> [] | Some ps \<Rightarrow> map runId_of_prefix ps)"

definition listAllReports :: "s3_env \<Rightarrow> run_summary report list outcome" where
  "listAllReports env =
     (case list_prefixes env of
        Inl e \<Rightarrow> Inl e
      | Inr prefixes \<Rightarrow> fetch_each env (runIds prefixes) [])"

subsection \<open>The time bounds as the specification words them\<close>

text \<open>
  The specification takes the minimum of the start fields and the maximum of the stop
  fields, a record that misses the field counting as the current time.
\<close>

definition spec_time_start :: "int \<Rightarrow> test_result list \<Rightarrow> int" where
  "spec_time_start now rs =
     Min (set (map (\<lambda>r. case test_result.start r of None \<Rightarrow> now | Some t \<Rightarrow> t) rs))"

definition spec_time_stop :: "int \<Rightarrow> test_result list \<Rightarrow> int" where
  "spec_time_stop now rs =
     Max (set (map (\<lambda>r. case test_result.stop r of None \<Rightarrow> now | Some t \<Rightarrow> t) rs))"

section \<open>The comparison of two reports (component CompareReports)\<close>

text \<open>
  The page holds the reports the server sent. A report of that list may lack its summary
  (\<^verbatim>\<open>report.summary?.statistic || {}\<close>), so the summary is optional here and the view
  that \<^verbatim>\<open>generateComparison\<close> builds has optional statistics: \<open>None\<close> is the empty
  object \<^verbatim>\<open>{}\<close>, whose every field reads \<^verbatim>\<open>undefined\<close>. The \<^verbatim>\<open>percentages\<close>
  part of the comparison (floating-point shares of each report's own total) is left out.
\<close>

record report_view =
  name :: string
  stats :: "statistic option"
  totalFiles :: int
  time :: "time_bounds option"

record differences =
  total :: js_number
  passed :: js_number
  failed :: js_number
  broken :: js_number
  skipped :: js_number
  files :: js_number

record comparison =
  report1 :: report_view
  report2 :: report_view
  differences :: differences

text \<open>\<^verbatim>\<open>b.f - a.f\<close> on statistics: a missing operand makes the difference \<^verbatim>\<open>NaN\<close>.\<close>

definition js_minus :: "int option \<Rightarrow> int option \<Rightarrow> js_number" where
  "js_minus b a = (case (b, a) of (Some y, Some x) \<Rightarrow> Num (y - x) | _ \<Rightarrow> NaN)"

definition view_of :: "run_summary option report \<Rightarrow> report_view" where
  "view_of r =
     \<lparr>name = runId r,
      stats = map_option statistic (summary r),
      totalFiles = (case summary r of None \<Rightarrow> 0 | Some s \<Rightarrow> run_summary.totalFiles s),
      time = map_option run_summary.time (summary r)\<rparr>"

definition generateComparison ::
  "run_summary option report list \<Rightarrow> string \<Rightarrow> string \<Rightarrow> comparison option" where
  "generateComparison availableReports selectedReport1 selectedReport2 =
     (case (find (\<lambda>r. runId r = selectedReport1) availableReports,
            find (\<lambda>r. runId r = selectedReport2) availableReports) of
        (Some r1, Some r2) \<Rightarrow>
          (let v1 = view_of r1; v2 = view_of r2 in
           Some \<lparr>report1 = v1, report2 = v2,
                 differences =
                   \<lparr>total = js_minus (map_option statistic.total (stats v2))
                                     (map_option statistic.total (stats v1)),
                    passed = js_minus (map_option statistic.passed (stats v2))
                                      (map_option statistic.passed (stats v1)),
                    failed = js_minus (map_option statistic.failed (stats v2))
                                      (map_option statistic.failed (stats v1)),
                    broken = js_minus (map_option statistic.broken (stats v2))
                                      (map_option statistic.broken (stats v1)),
                    skipped = js_minus (map_option statistic.skipped (stats v2))
                                       (map_option statistic.skipped (stats v1)),
                    files = Num (totalFiles v2 - totalFiles v1)\<rparr>\<rparr>)
      | _ \<Rightarrow> None)"

subsection \<open>The rows of the detail table\<close>

datatype metric_key = Total | Passed | Failed | Broken | Skipped

fun stat_at :: "statistic \<Rightarrow> metric_key \<Rightarrow> int" where
  "stat_at s Total = statistic.total s"
| "stat_at s Passed = statistic.passed s"
| "stat_at s Failed = statistic.failed s"
| "stat_at s Broken = statistic.broken s"
| "stat_at s Skipped = statistic.skipped s"

text \<open>\<^verbatim>\<open>stats[metric.key] || 0\<close>: a missing count reads as \<open>0\<close>.\<close>

definition value_or_0 :: "report_view \<Rightarrow> metric_key \<Rightarrow> int" where
  "value_or_0 v k = (case stats v of None \<Rightarrow> 0 | Some s \<Rightarrow> stat_at s k)"

text \<open>
  A JavaScript number is a binary64 floating-point value; a finite one is modelled by the
  real number it denotes. \<open>binary64 x\<close> is the value with a significand of 53 bits that
  is nearest to \<open>x\<close>, a tie going to the even significand: it is what \<^verbatim>\<open>/\<close> and
  \<^verbatim>\<open>*\<close> return for the exact quotient and product of their operands. The counts of a
  report are integers of magnitude at most \<open>2^53\<close>, which binary64 holds exactly; the
  quotient of two such counts and its product by \<open>100\<close> neither overflow nor are
  subnormal, so the exponent is left unbounded.
\<close>

definition pow2 :: "int \<Rightarrow> real" where
  "pow2 e = (if 0 \<le> e then 2 ^ nat e else 1 / 2 ^ nat (- e))"

text \<open>The exponent \<open>e\<close> of a number \<open>x \<noteq> 0\<close>, for which \<open>2^e \<le> |x| < 2^(e+1)\<close>.\<close>

definition exponent :: "real \<Rightarrow> int" where
  "exponent x =
     (if 1 \<le> \<bar>x\<bar> then bitlen \<lfloor>\<bar>x\<bar>\<rfloor> - 1 else - bitlen (\<lceil>1 / \<bar>x\<bar>\<rceil> - 1))"

definition round_half_even :: "real \<Rightarrow> int" where
  "round_half_even m =
     (let f = \<lfloor>m\<rfloor>; r = m - of_int f
      in if r < 1 / 2 then f else if 1 / 2 < r then f + 1 else if even f then f else f + 1)"

definition binary64 :: "real \<Rightarrow> real" where
  "binary64 x =
     (if x = 0 then 0
      else (let ulp = pow2 (exponent x - 52) in of_int (round_half_even (x / ulp)) * ulp))"

definition js_divide :: "real \<Rightarrow> real \<Rightarrow> real" where
  "js_divide x y = binary64 (x / y)"

definition js_times :: "real \<Rightarrow> real \<Rightarrow> real" where
  "js_times x y = binary64 (x * y)"

text \<open>
  \<^verbatim>\<open>x.toFixed(1)\<close> for \<open>|x| < 10^21\<close>: a minus sign when \<open>x < 0\<close>, then the integer
  \<open>n\<close> for which \<open>n / 10\<close> is nearest to \<open>|x|\<close> (the larger one of two such integers),
  written with at least two digits and a point before the last one.
\<close>

definition toFixed1 :: "real \<Rightarrow> string" where
  "toFixed1 x =
     (let s = (if x < 0 then ''-'' else []);
          n = nat \<lfloor>\<bar>x\<bar> * 10 + 1 / 2\<rfloor>;
          m = decimal n;
          m = (if length m \<le> 1 then ''0'' @ m else m)
      in s @ butlast m @ ''.'' @ [last m])"

text \<open>The percent change of a row is a string: a number with one decimal, or \<^verbatim>\<open>'N/A'\<close>.\<close>

definition percentChange :: "comparison \<Rightarrow> metric_key \<Rightarrow> string" where
  "percentChange comparisonData k =
     (let value1 = value_or_0 (report1 comparisonData) k;
          value2 = value_or_0 (report2 comparisonData) k;
          diff = value2 - value1
      in if value1 > 0 then toFixed1 (js_times (js_divide (of_int diff) (of_int value1)) 100)
         else if value2 > 0 \<and> value1 = 0 then toFixed1 (js_times (of_int value2) 100)
         else ''N/A'')"

section \<open>The client-side cache of reports (ReportsContext.jsx, ReportsProvider)\<close>

text \<open>
  The cache is the state of the provider; each call of \<^verbatim>\<open>getReports\<close> is a transition
  from the cache it finds to the cache it leaves, calls running one after the other. The
  network and the clock are the environment of one call.
\<close>

record overall_summary =
  totalReports :: int
  totalTests :: int
  lastUpdated :: string

record reports_cache =
  reports :: "run_summary option report list"
  summary :: "overall_summary option"
  lastFetched :: "int option"
  loading :: bool
  error :: "string option"

text \<open>The body of a reply of \<^verbatim>\<open>/api/reports\<close>; either field may be missing.\<close>

record api_data =
  data_reports :: "run_summary option report list option"
  data_summary :: "overall_summary option"

text \<open>
  What \<^verbatim>\<open>fetch\<close> does: it rejects, or it gives a response with a status code whose body
  parses to data or fails to parse.
\<close>

datatype fetch_reply = NetworkError string | Response nat "api_data outcome"

text \<open>
  \<open>now_called\<close> is the clock when the call checks the age of the cache, \<open>now_fetched\<close>
  the clock when the fetched data is stored.
\<close>

record call_env =
  now_called :: int
  reply :: fetch_reply
  now_fetched :: int

text \<open>What a call leaves: the promise it returns, the cache, and how many times it called
  \<^verbatim>\<open>fetch\<close>.\<close>

record call_effect =
  returned :: "(run_summary option report list \<times> overall_summary option) outcome"
  cache :: reports_cache
  fetches :: nat

definition initial_cache :: reports_cache where
  "initial_cache = \<lparr>reports = [], summary = None, lastFetched = None, loading = False, error = None\<rparr>"

definition shouldRefreshData :: "int \<Rightarrow> reports_cache \<Rightarrow> bool" where
  "shouldRefreshData now reportsCache =
     (if \<not> truthy (lastFetched reportsCache) \<or> length (reports reportsCache) = 0 then True
      else (let fiveMinutesAgo = now - (5 * 60 * 1000)
            in the (lastFetched reportsCache) < fiveMinutesAgo))"

text \<open>The \<^verbatim>\<open>try\<close> block up to the parsed data: \<open>Inl\<close> is the message of what is thrown.\<close>

definition fetch_data :: "fetch_reply \<Rightarrow> api_data outcome" where
  "fetch_data r =
     (case r of
        NetworkError msg \<Rightarrow> Inl msg
      | Response code body \<Rightarrow>
          (if \<not> (200 \<le> code \<and> code \<le> 299) then Inl (''HTTP error! status: '' @ decimal code)
           else body))"

definition fetchAndCacheReports :: "bool \<Rightarrow> call_env \<Rightarrow> reports_cache \<Rightarrow> call_effect" where
  "fetchAndCacheReports forceRefresh env reportsCache =
     (if \<not> forceRefresh \<and> \<not> shouldRefreshData (now_called env) reportsCache
      then \<lparr>returned = Inr (reports reportsCache, reports_cache.summary reportsCache),
            cache = reportsCache, fetches = 0\<rparr>
      else
        (let prev = reportsCache\<lparr>loading := True, error := None\<rparr> in
         case fetch_data (reply env) of
           Inr data \<Rightarrow>
             (let reports = (case data_reports data of None \<Rightarrow> [] | Some rs \<Rightarrow> rs);
                  summary = data_summary data;
                  newCache = \<lparr>reports = reports, summary = summary,
                              lastFetched = Some (now_fetched env),
                              loading = False, error = None\<rparr>
              in \<lparr>returned = Inr (reports, summary), cache = newCache, fetches = 1\<rparr>)
         | Inl message \<Rightarrow>
             \<lparr>returned = Inl message,
              cache = prev\<lparr>loading := False, error := Some message\<rparr>,
              fetches = 1\<rparr>))"

definition getReports :: "bool \<Rightarrow> call_env \<Rightarrow> reports_cache \<Rightarrow> call_effect" where
  "getReports forceRefresh env reportsCache = fetchAndCacheReports forceRefresh env reportsCache"

section \<open>The download endpoint (the Express server)\<close>

text \<open>
  \<^verbatim>\<open>GET /api/download-report/:runId\<close> answers with a JSON error or with a ZIP archive of
  the run's objects. The response is what the handler leaves in \<^verbatim>\<open>res\<close>: the status
  code, the headers it set, and the body. An archive is the list of its entries, each a
  name and the bytes of the object streamed into it, in the order of the listing. The
  environment gives the credentials read from the process environment, the reply to the
  listing, the body stream of each object (\<open>Inl\<close> when opening it throws), the library
  function \<^verbatim>\<open>path.basename\<close> and the text of the current time; \<open>run\<close> is the
  \<^verbatim>\<open>runId\<close> of the request. Failures of the archive writer while it streams are not
  modelled.
\<close>

datatype response_body = JsonBody "(string \<times> string) list" | ZipBody "(string \<times> nat list) list"

record http_response =
  statusCode :: nat
  headers :: "(string \<times> string) list"
  body :: response_body

record download_env =
  access_key :: "string option"
  secret_key :: "string option"
  listing :: "string \<Rightarrow> string list option outcome"
  object_body :: "string \<Rightarrow> nat list outcome"
  basename :: "string \<Rightarrow> string"
  timestamp :: string

text \<open>\<^verbatim>\<open>res.status(code).json(obj)\<close>\<close>

definition json_response :: "nat \<Rightarrow> (string \<times> string) list \<Rightarrow> http_response" where
  "json_response code obj =
     \<lparr>statusCode = code,
      headers = [(''Content-Type'', ''application/json; charset=utf-8'')],
      body = JsonBody obj\<rparr>"

text \<open>The \<^verbatim>\<open>catch\<close> block, reached before any header is sent.\<close>

definition failed_download :: "download_env \<Rightarrow> string \<Rightarrow> http_response" where
  "failed_download env message =
     json_response 500 [(''error'', ''Failed to create download''),
                        (''details'', message),
                        (''timestamp'', timestamp env)]"

definition missing :: "string option \<Rightarrow> bool" where
  "missing v \<longleftrightarrow> v = None \<or> v = Some []"

text \<open>The entries appended to the archive: an object with an empty base name is skipped,
  and so is one whose stream cannot be opened.\<close>

fun stream_files :: "download_env \<Rightarrow> string list \<Rightarrow> (string \<times> nat list) list" where
  "stream_files env [] = []"
| "stream_files env (key # keys) =
     (let filename = basename env key in
      if filename \<noteq> [] then
        (case object_body env key of
           Inr bytes \<Rightarrow> (filename, bytes) # stream_files env keys
         | Inl fileError \<Rightarrow> stream_files env keys)
      else stream_files env keys)"

definition download_report :: "download_env \<Rightarrow> string \<Rightarrow> http_response" where
  \<open>download_report env run =
     (if run = [] then json_response 400 [(''error'', ''RunId is required'')]
      else if missing (access_key env) \<or> missing (secret_key env)
      then failed_download env ''AWS credentials not configured. Please check your .env file.''
      else
        (case listing env (''reports/'' @ run @ ''/'') of
           Inl message \<Rightarrow> failed_download env message
         | Inr contents \<Rightarrow>
             (let files = (case contents of None \<Rightarrow> [] | Some keys \<Rightarrow> keys) in
              if length files = 0
              then json_response 404 [(''error'', ''No files found for runId: '' @ run)]
              else \<lparr>statusCode = 200,
                    headers = [(''Content-Type'', ''application/zip''),
                               (''Content-Disposition'',
                                ''attachment; filename="'' @ run @ ''.zip"'')],
                    body = ZipBody (stream_files env files)\<rparr>)))\<close>

section \<open>Sample environments\<close>

text \<open>
  A bucket with three runs. Run \<open>allure-results-1\<close> has two results that parse, one
  result file that does not, and an attachment. Run \<open>allure-results-2\<close> has one result
  file, which does not parse. The listing of run \<open>allure-results-3\<close> is refused. The
  clock reads \<open>1000\<close>.
\<close>

definition sample_objects :: "string \<Rightarrow> parsed option" where
  "sample_objects key =
     (if key = ''reports/allure-results-1/a-result.json''
      then Some (Truthy \<lparr>status = Some ''passed'', start = Some 10, stop = Some 20\<rparr>)
      else if key = ''reports/allure-results-1/b-result.json''
      then Some (Truthy \<lparr>status = Some ''failed'', start = Some 0, stop = None\<rparr>)
      else None)"

definition sample_listing :: "string \<Rightarrow> string list option outcome" where
  "sample_listing prefix =
     (if prefix = ''reports/allure-results-1/''
      then Inr (Some [''reports/allure-results-1/a-result.json'',
                      ''reports/allure-results-1/b-result.json'',
                      ''reports/allure-results-1/c-result.json'',
                      ''reports/allure-results-1/log.txt''])
      else if prefix = ''reports/allure-results-2/''
      then Inr (Some [''reports/allure-results-2/x-result.json''])
      else if prefix = ''reports/allure-results-3/''
      then Inl ''AccessDenied''
      else Inr None)"

definition sample_env :: "string list \<Rightarrow> s3_env" where
  "sample_env prefixes =
     \<lparr>list_prefixes = Inr (Some prefixes),
      list_objects = sample_listing,
      get_object = sample_objects,
      date_now = (\<lambda>e n. 1000)\<rparr>"

text \<open>
  Two replies of \<^verbatim>\<open>/api/reports\<close>: one with no report, one with a single report.
\<close>

definition no_reports :: api_data where
  "no_reports =
     \<lparr>data_reports = Some [],
      data_summary = Some \<lparr>totalReports = 0, totalTests = 0, lastUpdated = ''2025-01-01''\<rparr>\<rparr>"

definition one_report :: api_data where
  "one_report =
     \<lparr>data_reports = Some [\<lparr>runId = ''allure-results-1'', summary = Some empty_summary\<rparr>],
      data_summary = Some \<lparr>totalReports = 1, totalTests = 0, lastUpdated = ''2025-01-01''\<rparr>\<rparr>"

text \<open>A call at time \<open>t\<close> whose fetch, when it happens, is answered at once by \<open>r\<close>.\<close>

definition call_at :: "int \<Rightarrow> fetch_reply \<Rightarrow> call_env" where
  "call_at t r = \<lparr>now_called = t, reply = r, now_fetched = t\<rparr>"

text \<open>A storage in which no prefix has any object.\<close>

definition empty_storage :: download_env where
  "empty_storage =
     \<lparr>access_key = Some ''key'', secret_key = Some ''secret'',
      listing = (\<lambda>p. Inr (Some [])),
      object_body = (\<lambda>k. Inl ''NoSuchKey''),
      basename = (\<lambda>k. k),
      timestamp = ''2025-01-01''\<rparr>"

text \<open>A storage in which the run \<open>allure-results-1\<close> has one object.\<close>

definition one_object_storage :: download_env where
  "one_object_storage =
     \<lparr>access_key = Some ''key'', secret_key = Some ''secret'',
      listing = (\<lambda>p. Inr (Some [''reports/allure-results-1/a-result.json''])),
      object_body = (\<lambda>k. Inr [123, 125]),
      basename = (\<lambda>k. ''a-result.json''),
      timestamp = ''2025-01-01''\<rparr>"

text \<open>
  The reports of the scenario of the specification: run A with 7 passed, 2 failed and
  1 broken test, run B with 5, 3 and 2; and two runs of four tests, none of which passed
  in run C and all of which passed in run D.
\<close>

definition run_A :: "run_summary option report" where
  "run_A = \<lparr>runId = ''run-A'',
            summary = Some \<lparr>statistic = \<lparr>statistic.total = 10, passed = 7, failed = 2,
                                           broken = 1, skipped = 0\<rparr>,
                            time = \<lparr>start = Some (Num 10), stop = Some (Num 20)\<rparr>,
                            totalFiles = 10\<rparr>\<rparr>"

definition run_B :: "run_summary option report" where
  "run_B = \<lparr>runId = ''run-B'',
            summary = Some \<lparr>statistic = \<lparr>statistic.total = 10, passed = 5, failed = 3,
                                           broken = 2, skipped = 0\<rparr>,
                            time = \<lparr>start = Some (Num 30), stop = Some (Num 40)\<rparr>,
                            totalFiles = 10\<rparr>\<rparr>"

definition run_C :: "run_summary option report" where
  "run_C = \<lparr>runId = ''run-C'',
            summary = Some \<lparr>statistic = \<lparr>statistic.total = 4, passed = 0, failed = 4,
                                           broken = 0, skipped = 0\<rparr>,
                            time = \<lparr>start = Some (Num 50), stop = Some (Num 60)\<rparr>,
                            totalFiles = 4\<rparr>\<rparr>"

definition run_D :: "run_summary option report" where
  "run_D = \<lparr>runId = ''run-D'',
            summary = Some \<lparr>statistic = \<lparr>statistic.total = 4, passed = 4, failed = 0,
                                           broken = 0, skipped = 0\<rparr>,
                            time = \<lparr>start = Some (Num 70), stop = Some (Num 80)\<rparr>,
                            totalFiles = 4\<rparr>\<rparr>"

text \<open>Two runs of 80 and of 103 tests, all of which passed.\<close>

definition run_E :: "run_summary option report" where
  "run_E = \<lparr>runId = ''run-E'',
            summary = Some \<lparr>statistic = \<lparr>statistic.total = 80, passed = 80, failed = 0,
                                           broken = 0, skipped = 0\<rparr>,
                            time = \<lparr>start = Some (Num 90), stop = Some (Num 100)\<rparr>,
                            totalFiles = 80\<rparr>\<rparr>"

definition run_F :: "run_summary option report" where
  "run_F = \<lparr>runId = ''run-F'',
            summary = Some \<lparr>statistic = \<lparr>statistic.total = 103, passed = 103, failed = 0,
                                           broken = 0, skipped = 0\<rparr>,
                            time = \<lparr>start = Some (Num 110), stop = Some (Num 120)\<rparr>,
                            totalFiles = 103\<rparr>\<rparr>"

text \<open>
  A bucket whose run \<open>allure-results-4\<close> has three results, read while the clock ticks:
  its readings are \<open>1000\<close>, \<open>1010\<close>, \<open>1020\<close> and so on. The first result has no start
  time, the second has the start time \<open>0\<close> and no stop time, the third has no stop time.
\<close>

definition ticking_env :: s3_env where
  "ticking_env =
     \<lparr>list_prefixes = Inr (Some [''reports/allure-results-4/'']),
      list_objects = (\<lambda>p. Inr (Some [''reports/allure-results-4/p-result.json'',
                                        ''reports/allure-results-4/q-result.json'',
                                        ''reports/allure-results-4/r-result.json''])),
      get_object = (\<lambda>k.
         if k = ''reports/allure-results-4/p-result.json''
         then Some (Truthy \<lparr>status = Some ''passed'', start = None, stop = Some 20\<rparr>)
         else if k = ''reports/allure-results-4/q-result.json''
         then Some (Truthy \<lparr>status = Some ''failed'', start = Some 0, stop = None\<rparr>)
         else Some (Truthy \<lparr>status = Some ''passed'', start = Some 2000, stop = None\<rparr>)),
      date_now = (\<lambda>e k. 1000 + 10 * int k)\<rparr>"

text \<open>A cache that was filled with run A at time \<open>1000\<close>.\<close>

definition warm_cache :: reports_cache where
  "warm_cache =
     \<lparr>reports = [run_A],
      summary = Some \<lparr>totalReports = 1, totalTests = 10, lastUpdated = ''2025-01-01''\<rparr>,
      lastFetched = Some 1000, loading = False, error = None\<rparr>"

section \<open>The summary of a run\<close>

lemma count_status_partition:
  "\<forall>r \<in> set rs. status r \<in> {Some ''passed'', Some ''failed'', Some ''broken'', Some ''skipped''} \<Longrightarrow>
   count_status rs ''passed'' + count_status rs ''failed'' + count_status rs ''broken''
     + count_status rs ''skipped'' = int (length rs)"
  by (induction rs) (auto simp: count_status_def)

lemma statistic_summarize:
  "statistic (summarize clock clean n) =
     \<lparr>statistic.total = int (length clean), passed = count_status clean ''passed'',
      failed = count_status clean ''failed'', broken = count_status clean ''broken'',
      skipped = count_status clean ''skipped''\<rparr>"
  by (simp add: summarize_def split: prod.splits)

text \<open>
  Claim C1. Whenever the listing of a run succeeds, \<^verbatim>\<open>fetchSummary\<close> returns a summary
  whose \<open>total\<close> is the length of the clean list, whose count for each of the four
  statuses is the number of clean records with exactly that status string, and whose four
  counts add up to \<open>total\<close> when every clean record has one of the four statuses.
\<close>

theorem fetchSummary_counts:
  assumes "list_objects env (''reports/'' @ execId @ ''/'') = Inr contents"
  shows "\<exists>s. fetchSummary env execId = Inr s \<and>
    (let clean = cleanResults (map (get_object env) (resultFiles contents)) in
       statistic.total (statistic s) = int (length clean) \<and>
       statistic.passed (statistic s) = int (length (filter (\<lambda>r. status r = Some ''passed'') clean)) \<and>
       statistic.failed (statistic s) = int (length (filter (\<lambda>r. status r = Some ''failed'') clean)) \<and>
       statistic.broken (statistic s) = int (length (filter (\<lambda>r. status r = Some ''broken'') clean)) \<and>
       statistic.skipped (statistic s) = int (length (filter (\<lambda>r. status r = Some ''skipped'') clean)) \<and>
       ((\<forall>r \<in> set clean. status r \<in> {Some ''passed'', Some ''failed'', Some ''broken'', Some ''skipped''})
          \<longrightarrow> statistic.passed (statistic s) + statistic.failed (statistic s)
                + statistic.broken (statistic s) + statistic.skipped (statistic s)
              = statistic.total (statistic s)))"
proof (cases "resultFiles contents = []")
  case True
  then show ?thesis using assms
    by (simp add: fetchSummary_def empty_summary_def)
next
  case False
  then show ?thesis using assms count_status_partition
    by (simp add: fetchSummary_def statistic_summarize Let_def count_status_def)
qed

text \<open>The first sample run: three result files, two of which parse.\<close>

lemma sample_resultFiles_1:
  "resultFiles (Some [''reports/allure-results-1/a-result.json'',
                      ''reports/allure-results-1/b-result.json'',
                      ''reports/allure-results-1/c-result.json'',
                      ''reports/allure-results-1/log.txt''])
   = [''reports/allure-results-1/a-result.json'',
      ''reports/allure-results-1/b-result.json'',
      ''reports/allure-results-1/c-result.json'']"
  by (simp add: resultFiles_def endsWith_def)

lemma sample_clean_1:
  "cleanResults (map sample_objects [''reports/allure-results-1/a-result.json'',
      ''reports/allure-results-1/b-result.json'',
      ''reports/allure-results-1/c-result.json''])
   = [\<lparr>status = Some ''passed'', start = Some 10, stop = Some 20\<rparr>,
      \<lparr>status = Some ''failed'', start = Some 0, stop = None\<rparr>]"
  by (simp add: sample_objects_def)

lemma sample_list_objects_1:
  "list_objects (sample_env ps) (''reports/'' @ ''allure-results-1'' @ ''/'')
     = Inr (Some [''reports/allure-results-1/a-result.json'',
                  ''reports/allure-results-1/b-result.json'',
                  ''reports/allure-results-1/c-result.json'',
                  ''reports/allure-results-1/log.txt''])"
  by (simp add: sample_env_def sample_listing_def)

theorem fetchSummary_counts_witness:
  "list_objects (sample_env []) (''reports/'' @ ''allure-results-1'' @ ''/'')
     = Inr (Some [''reports/allure-results-1/a-result.json'',
                  ''reports/allure-results-1/b-result.json'',
                  ''reports/allure-results-1/c-result.json'',
                  ''reports/allure-results-1/log.txt'']) \<and>
   (\<exists>s. fetchSummary (sample_env []) ''allure-results-1'' = Inr s \<and>
        statistic s = \<lparr>statistic.total = 2, passed = 1, failed = 1, broken = 0, skipped = 0\<rparr> \<and>
        statistic.passed (statistic s) + statistic.failed (statistic s)
          + statistic.broken (statistic s) + statistic.skipped (statistic s)
        = statistic.total (statistic s))"
proof -
  note h = sample_list_objects_1 [of "[]"]
  have g: "get_object (sample_env []) = sample_objects"
    by (simp add: sample_env_def)
  from fetchSummary_counts [OF h] obtain s where
    s: "fetchSummary (sample_env []) ''allure-results-1'' = Inr s"
    and c: "statistic.total (statistic s) = 2" "statistic.passed (statistic s) = 1"
       "statistic.failed (statistic s) = 1" "statistic.broken (statistic s) = 0"
       "statistic.skipped (statistic s) = 0"
    unfolding g sample_resultFiles_1 sample_clean_1 by (auto simp: Let_def)
  from c have "statistic s = \<lparr>statistic.total = 2, passed = 1, failed = 1, broken = 0, skipped = 0\<rparr>"
    by (cases "statistic s") simp
  with h s c show ?thesis by simp
qed

text \<open>The summaries of the three sample runs.\<close>

lemma sample_summary_1:
  "fetchSummary (sample_env ps) ''allure-results-1''
   = Inr \<lparr>statistic = \<lparr>statistic.total = 2, passed = 1, failed = 1, broken = 0, skipped = 0\<rparr>,
          time = \<lparr>start = Some (Num 10), stop = Some (Num 1000)\<rparr>,
          totalFiles = 3\<rparr>"
  using sample_list_objects_1 [of ps]
  by (simp add: fetchSummary_def sample_resultFiles_1 sample_env_def sample_objects_def
      summarize_def count_status_def truthy_def)

lemma sample_summary_2:
  "fetchSummary (sample_env ps) ''allure-results-2''
   = Inr \<lparr>statistic = \<lparr>statistic.total = 0, passed = 0, failed = 0, broken = 0, skipped = 0\<rparr>,
          time = \<lparr>start = Some Infinity, stop = Some NegInfinity\<rparr>,
          totalFiles = 1\<rparr>"
  by (simp add: fetchSummary_def sample_env_def sample_listing_def resultFiles_def endsWith_def
      sample_objects_def summarize_def count_status_def)

lemma sample_summary_3:
  "fetchSummary (sample_env ps) ''allure-results-3'' = Inl ''AccessDenied''"
  by (simp add: fetchSummary_def sample_env_def sample_listing_def)

text \<open>
  Claim C2. With an empty clean list the summary should have all counts \<open>0\<close> and both
  time bounds \<^verbatim>\<open>null\<close>, also when result files exist and none of them parses. The
  second sample run has one result file, which does not parse: the counts are \<open>0\<close>, but
  the guard of \<^verbatim>\<open>fetchSummary\<close> looks at the number of result files, not at the clean
  list, so the time bounds are those of \<^verbatim>\<open>Math.min()\<close> and \<^verbatim>\<open>Math.max()\<close> without
  arguments.
\<close>

theorem fetchSummary_unparsed_files:
  "fetchSummary (sample_env []) ''allure-results-2''
   = Inr \<lparr>statistic = \<lparr>statistic.total = 0, passed = 0, failed = 0, broken = 0, skipped = 0\<rparr>,
          time = \<lparr>start = Some Infinity, stop = Some NegInfinity\<rparr>,
          totalFiles = 1\<rparr>"
  by (rule sample_summary_2)

subsection \<open>The time bounds\<close>

text \<open>
  What the pass over a field gives for every clock: record \<open>i\<close> gives its field when the
  field is truthy, and otherwise the reading whose number is the counter at the start of
  the pass plus the number of earlier records with a falsy field.
\<close>

lemma or_now_readings:
  "or_now clock n (map f rs) =
     (map (\<lambda>i. if truthy (f (rs ! i)) then the (f (rs ! i))
                else clock (n + length (filter (\<lambda>r. \<not> truthy (f r)) (take i rs))))
          [0..<length rs],
      n + length (filter (\<lambda>r. \<not> truthy (f r)) rs))"
proof (induction rs arbitrary: n)
  case Nil
  then show ?case by simp
next
  case (Cons r rs)
  show ?case
    by (simp add: Cons.IH map_upt_Suc del: upt_Suc)
qed

lemma Math_min_Min: "xs \<noteq> [] \<Longrightarrow> Math_min xs = Num (Min (set xs))"
  by (cases xs) (simp_all add: Min.set_eq_fold del: set_simps)

lemma Math_max_Max: "xs \<noteq> [] \<Longrightarrow> Math_max xs = Num (Max (set xs))"
  by (cases xs) (simp_all add: Max.set_eq_fold del: set_simps)

lemma time_summarize:
  "run_summary.time (summarize clock clean nfiles) =
     \<lparr>start = Some (Math_min (map (\<lambda>i.
          if truthy (test_result.start (clean ! i)) then the (test_result.start (clean ! i))
          else clock (length (filter (\<lambda>r. \<not> truthy (test_result.start r)) (take i clean))))
          [0..<length clean])),
      stop = Some (Math_max (map (\<lambda>i.
          if truthy (test_result.stop (clean ! i)) then the (test_result.stop (clean ! i))
          else clock (length (filter (\<lambda>r. \<not> truthy (test_result.start r)) clean)
                      + length (filter (\<lambda>r. \<not> truthy (test_result.stop r)) (take i clean))))
          [0..<length clean]))\<rparr>"
  by (simp add: summarize_def or_now_readings cong: if_cong)

text \<open>
  Claim C8, as amended. Over a non-empty clean list, \<open>start\<close> is the minimum and \<open>stop\<close>
  the maximum of what the records contribute. A record contributes its field when the
  field is present and not \<open>0\<close>; when the field is missing or \<open>0\<close> it contributes the
  clock as \<^verbatim>\<open>Date.now()\<close> reads it for that record, and it is not excluded. The
  clock is read once for each such record, first for the start times in list order and
  then for the stop times: the reading for the start of record \<open>i\<close> has the number of the
  earlier records whose start is missing or \<open>0\<close>, and the readings for the stop times
  follow those for the start times.
\<close>

theorem fetchSummary_time_bounds:
  assumes "list_objects env (''reports/'' @ execId @ ''/'') = Inr contents"
    and "cleanResults (map (get_object env) (resultFiles contents)) = clean"
    and "clean \<noteq> []"
  shows "\<exists>s. fetchSummary env execId = Inr s \<and>
    time_bounds.start (run_summary.time s) =
      Some (Num (Min (set (map (\<lambda>i.
        case test_result.start (clean ! i) of
          Some t \<Rightarrow>
            if t = 0
            then date_now env execId
                   (length (filter (\<lambda>r. \<not> truthy (test_result.start r)) (take i clean)))
            else t
        | None \<Rightarrow>
            date_now env execId
              (length (filter (\<lambda>r. \<not> truthy (test_result.start r)) (take i clean))))
        [0..<length clean])))) \<and>
    time_bounds.stop (run_summary.time s) =
      Some (Num (Max (set (map (\<lambda>i.
        case test_result.stop (clean ! i) of
          Some t \<Rightarrow>
            if t = 0
            then date_now env execId
                   (length (filter (\<lambda>r. \<not> truthy (test_result.start r)) clean)
                    + length (filter (\<lambda>r. \<not> truthy (test_result.stop r)) (take i clean)))
            else t
        | None \<Rightarrow>
            date_now env execId
              (length (filter (\<lambda>r. \<not> truthy (test_result.start r)) clean)
               + length (filter (\<lambda>r. \<not> truthy (test_result.stop r)) (take i clean))))
        [0..<length clean]))))"
proof -
  from assms(2,3) have files: "resultFiles contents \<noteq> []" by auto
  with assms(1,2) have s: "fetchSummary env execId
      = Inr (summarize (date_now env execId) clean (length (resultFiles contents)))"
    by (simp add: fetchSummary_def)
  have ne: "map f [0..<length clean] \<noteq> []" for f :: "nat \<Rightarrow> int"
    using assms(3) by simp
  have c: "(if truthy v then the v else d)
             = (case v of Some t \<Rightarrow> if t = 0 then d else t | None \<Rightarrow> d)"
    for v :: "int option" and d
    by (simp add: truthy_def split: option.splits)
  show ?thesis
    unfolding s
    by (simp add: time_summarize Math_min_Min [OF ne] Math_max_Max [OF ne] c
        del: set_map set_upt)
qed

text \<open>
  In the run read while the clock ticks, the first two records take the readings \<open>1000\<close>
  and \<open>1010\<close> for their start, the last two the readings \<open>1020\<close> and \<open>1030\<close> for
  their stop.
\<close>

theorem fetchSummary_time_bounds_witness:
  "list_objects ticking_env (''reports/'' @ ''allure-results-4'' @ ''/'')
     = Inr (Some [''reports/allure-results-4/p-result.json'',
                  ''reports/allure-results-4/q-result.json'',
                  ''reports/allure-results-4/r-result.json'']) \<and>
   cleanResults (map (get_object ticking_env)
      (resultFiles (Some [''reports/allure-results-4/p-result.json'',
                          ''reports/allure-results-4/q-result.json'',
                          ''reports/allure-results-4/r-result.json''])))
     = [\<lparr>status = Some ''passed'', start = None, stop = Some 20\<rparr>,
        \<lparr>status = Some ''failed'', start = Some 0, stop = None\<rparr>,
        \<lparr>status = Some ''passed'', start = Some 2000, stop = None\<rparr>] \<and>
   (\<exists>s. fetchSummary ticking_env ''allure-results-4'' = Inr s \<and>
        run_summary.time s = \<lparr>start = Some (Num 1000), stop = Some (Num 1030)\<rparr>)"
proof -
  have h: "list_objects ticking_env (''reports/'' @ ''allure-results-4'' @ ''/'')
     = Inr (Some [''reports/allure-results-4/p-result.json'',
                  ''reports/allure-results-4/q-result.json'',
                  ''reports/allure-results-4/r-result.json''])"
    by (simp add: ticking_env_def)
  have g: "cleanResults (map (get_object ticking_env)
      (resultFiles (Some [''reports/allure-results-4/p-result.json'',
                          ''reports/allure-results-4/q-result.json'',
                          ''reports/allure-results-4/r-result.json''])))
     = [\<lparr>status = Some ''passed'', start = None, stop = Some 20\<rparr>,
        \<lparr>status = Some ''failed'', start = Some 0, stop = None\<rparr>,
        \<lparr>status = Some ''passed'', start = Some 2000, stop = None\<rparr>]"
    by (simp add: ticking_env_def resultFiles_def endsWith_def)
  have u: "[0..<length [a, b, c]] = [0, 1, 2]" for a b c :: test_result
    by (simp add: upt_rec)
  have d: "date_now ticking_env ''allure-results-4'' = (\<lambda>k. 1000 + 10 * int k)"
    by (simp add: ticking_env_def)
  from fetchSummary_time_bounds [OF h g] obtain s where
    s: "fetchSummary ticking_env ''allure-results-4'' = Inr s"
    and t: "time_bounds.start (run_summary.time s) = Some (Num 1000)"
           "time_bounds.stop (run_summary.time s) = Some (Num 1030)"
    unfolding u d by (auto simp: truthy_def)
  from t have "run_summary.time s = \<lparr>start = Some (Num 1000), stop = Some (Num 1030)\<rparr>"
    by (cases "run_summary.time s") simp
  with h g s show ?thesis by blast
qed

text \<open>
  The claim as it is worded fails on the first sample run, read at clock \<open>1000\<close>: its
  second record has the start time \<open>0\<close>, which \<^verbatim>\<open>r.start || Date.now()\<close> replaces by
  the clock, so the summary starts at \<open>10\<close>, where the minimum of the start fields is \<open>0\<close>.
\<close>

theorem time_start_counterexample:
  "fetchSummary (sample_env []) ''allure-results-1''
   = Inr \<lparr>statistic = \<lparr>statistic.total = 2, passed = 1, failed = 1, broken = 0, skipped = 0\<rparr>,
          time = \<lparr>start = Some (Num 10), stop = Some (Num 1000)\<rparr>,
          totalFiles = 3\<rparr> \<and>
   spec_time_start 1000 [\<lparr>status = Some ''passed'', start = Some 10, stop = Some 20\<rparr>,
                         \<lparr>status = Some ''failed'', start = Some 0, stop = None\<rparr>] = 0 \<and>
   spec_time_stop 1000 [\<lparr>status = Some ''passed'', start = Some 10, stop = Some 20\<rparr>,
                        \<lparr>status = Some ''failed'', start = Some 0, stop = None\<rparr>] = 1000"
  by (simp add: sample_summary_1 spec_time_start_def spec_time_stop_def)

section \<open>The run catalog\<close>

lemma fetchSummary_listed:
  "list_objects env (''reports/'' @ r @ ''/'') = Inr c \<Longrightarrow> \<exists>s. fetchSummary env r = Inr s"
  by (simp add: fetchSummary_def Let_def)

lemma fetchSummary_refused:
  "list_objects env (''reports/'' @ r @ ''/'') = Inl e \<Longrightarrow> fetchSummary env r = Inl e"
  by (simp add: fetchSummary_def)

text \<open>When every listing succeeds the loop appends one report for each run, in order.\<close>

lemma fetch_each_all_listed:
  "\<forall>r \<in> set rs. \<exists>c. list_objects env (''reports/'' @ r @ ''/'') = Inr c \<Longrightarrow>
   \<exists>new. fetch_each env rs acc = Inr (acc @ new) \<and> map runId new = rs \<and>
         (\<forall>p \<in> set new. fetchSummary env (runId p) = Inr (report.summary p))"
proof (induction rs arbitrary: acc)
  case Nil
  then show ?case by simp
next
  case (Cons r rs)
  from Cons.prems obtain s where s: "fetchSummary env r = Inr s"
    using fetchSummary_listed by fastforce
  from Cons.prems have "\<forall>r \<in> set rs. \<exists>c. list_objects env (''reports/'' @ r @ ''/'') = Inr c"
    by simp
  from Cons.IH [OF this, of "acc @ [\<lparr>runId = r, summary = s\<rparr>]"] obtain new where
    new: "fetch_each env rs (acc @ [\<lparr>runId = r, summary = s\<rparr>])
            = Inr ((acc @ [\<lparr>runId = r, summary = s\<rparr>]) @ new)"
      "map runId new = rs" "\<forall>p \<in> set new. fetchSummary env (runId p) = Inr (report.summary p)"
    by blast
  show ?case
  proof (intro exI conjI)
    show "fetch_each env (r # rs) acc = Inr (acc @ (\<lparr>runId = r, summary = s\<rparr> # new))"
      using s new(1) by simp
    show "map runId (\<lparr>runId = r, summary = s\<rparr> # new) = r # rs"
      using new(2) by simp
    show "\<forall>p \<in> set (\<lparr>runId = r, summary = s\<rparr> # new).
            fetchSummary env (runId p) = Inr (report.summary p)"
      using s new(3) by simp
  qed
qed

text \<open>One refused listing ends the loop with an error, whatever was collected before.\<close>

lemma fetch_each_one_refused:
  "\<exists>r \<in> set rs. \<exists>e. list_objects env (''reports/'' @ r @ ''/'') = Inl e \<Longrightarrow>
   \<exists>e. fetch_each env rs acc = Inl e"
proof (induction rs arbitrary: acc)
  case Nil
  then show ?case by simp
next
  case (Cons r rs)
  show ?case
  proof (cases "fetchSummary env r")
    case (Inl e)
    then show ?thesis by simp
  next
    case (Inr s)
    with Cons.prems have "\<exists>r \<in> set rs. \<exists>e. list_objects env (''reports/'' @ r @ ''/'') = Inl e"
      using fetchSummary_refused by fastforce
    from Cons.IH [OF this] Inr show ?thesis by simp
  qed
qed

lemma sample_runIds:
  "runIds (Some [''reports/allure-results-1/'', ''reports/allure-results-3/''])
   = [''allure-results-1'', ''allure-results-3'']"
  "runIds (Some [''reports/allure-results-1/'', ''reports/allure-results-2/''])
   = [''allure-results-1'', ''allure-results-2'']"
  by (simp_all add: runIds_def runId_of_prefix_def strip_trailing_slash_def)

text \<open>
  Claim C6, as amended. A result file that cannot be fetched or parsed removes no run:
  when the listing of every enumerated run succeeds, \<^verbatim>\<open>listAllReports\<close> returns one
  report for each run, in the order of the enumeration, each with the summary of its run.
  When the listing of some enumerated run fails, \<^verbatim>\<open>listAllReports\<close> fails as a whole
  and returns no report.
\<close>

theorem listAllReports_all_or_nothing:
  assumes "list_prefixes env = Inr prefixes"
  shows "((\<forall>r \<in> set (runIds prefixes). \<exists>c. list_objects env (''reports/'' @ r @ ''/'') = Inr c) \<longrightarrow>
           (\<exists>out. listAllReports env = Inr out \<and>
              map runId out = runIds prefixes \<and>
              (\<forall>p \<in> set out. fetchSummary env (runId p) = Inr (report.summary p)))) \<and>
         ((\<exists>r \<in> set (runIds prefixes). \<exists>e. list_objects env (''reports/'' @ r @ ''/'') = Inl e) \<longrightarrow>
           (\<exists>e. listAllReports env = Inl e))"
proof (intro conjI impI)
  assume "\<forall>r \<in> set (runIds prefixes). \<exists>c. list_objects env (''reports/'' @ r @ ''/'') = Inr c"
  from fetch_each_all_listed [OF this, of "[]"] assms
  show "\<exists>out. listAllReports env = Inr out \<and>
              map runId out = runIds prefixes \<and>
              (\<forall>p \<in> set out. fetchSummary env (runId p) = Inr (report.summary p))"
    by (simp add: listAllReports_def)
next
  assume "\<exists>r \<in> set (runIds prefixes). \<exists>e. list_objects env (''reports/'' @ r @ ''/'') = Inl e"
  from fetch_each_one_refused [OF this, of "[]"] assms
  show "\<exists>e. listAllReports env = Inl e"
    by (simp add: listAllReports_def)
qed

theorem listAllReports_all_or_nothing_witness:
  "list_prefixes (sample_env [''reports/allure-results-1/'', ''reports/allure-results-2/''])
     = Inr (Some [''reports/allure-results-1/'', ''reports/allure-results-2/'']) \<and>
   list_objects (sample_env [''reports/allure-results-1/'', ''reports/allure-results-2/''])
     ''reports/allure-results-1/''
     = Inr (Some [''reports/allure-results-1/a-result.json'',
                  ''reports/allure-results-1/b-result.json'',
                  ''reports/allure-results-1/c-result.json'',
                  ''reports/allure-results-1/log.txt'']) \<and>
   list_objects (sample_env [''reports/allure-results-1/'', ''reports/allure-results-2/''])
     ''reports/allure-results-2/''
     = Inr (Some [''reports/allure-results-2/x-result.json'']) \<and>
   (\<exists>out. listAllReports (sample_env [''reports/allure-results-1/'', ''reports/allure-results-2/''])
        = Inr out \<and> map runId out = [''allure-results-1'', ''allure-results-2'']) \<and>
   list_prefixes (sample_env [''reports/allure-results-1/'', ''reports/allure-results-3/''])
     = Inr (Some [''reports/allure-results-1/'', ''reports/allure-results-3/'']) \<and>
   list_objects (sample_env [''reports/allure-results-1/'', ''reports/allure-results-3/''])
     ''reports/allure-results-3/'' = Inl ''AccessDenied'' \<and>
   (\<exists>e. listAllReports (sample_env [''reports/allure-results-1/'', ''reports/allure-results-3/''])
        = Inl e)"
proof -
  let ?e2 = "sample_env [''reports/allure-results-1/'', ''reports/allure-results-2/'']"
  let ?e3 = "sample_env [''reports/allure-results-1/'', ''reports/allure-results-3/'']"
  have p2: "list_prefixes ?e2 = Inr (Some [''reports/allure-results-1/'', ''reports/allure-results-2/''])"
    by (simp add: sample_env_def)
  have p3: "list_prefixes ?e3 = Inr (Some [''reports/allure-results-1/'', ''reports/allure-results-3/''])"
    by (simp add: sample_env_def)
  have l1: "list_objects ?e2 ''reports/allure-results-1/''
     = Inr (Some [''reports/allure-results-1/a-result.json'',
                  ''reports/allure-results-1/b-result.json'',
                  ''reports/allure-results-1/c-result.json'',
                  ''reports/allure-results-1/log.txt''])"
    by (simp add: sample_env_def sample_listing_def)
  have l2: "list_objects ?e2 ''reports/allure-results-2/''
     = Inr (Some [''reports/allure-results-2/x-result.json''])"
    by (simp add: sample_env_def sample_listing_def)
  have l3: "list_objects ?e3 ''reports/allure-results-3/'' = Inl ''AccessDenied''"
    by (simp add: sample_env_def sample_listing_def)
  have a2: "\<forall>r \<in> set (runIds (Some [''reports/allure-results-1/'', ''reports/allure-results-2/''])).
      \<exists>c. list_objects ?e2 (''reports/'' @ r @ ''/'') = Inr c"
    using l1 l2 by (simp add: sample_runIds)
  have a3: "\<exists>r \<in> set (runIds (Some [''reports/allure-results-1/'', ''reports/allure-results-3/''])).
      \<exists>e. list_objects ?e3 (''reports/'' @ r @ ''/'') = Inl e"
    using l3 by (simp add: sample_runIds)
  from listAllReports_all_or_nothing [OF p2] a2
  have "\<exists>out. listAllReports ?e2 = Inr out \<and>
      map runId out = runIds (Some [''reports/allure-results-1/'', ''reports/allure-results-2/''])"
    by blast
  then have r2: "\<exists>out. listAllReports ?e2 = Inr out \<and>
      map runId out = [''allure-results-1'', ''allure-results-2'']"
    by (simp only: sample_runIds)
  from listAllReports_all_or_nothing [OF p3] a3
  have r3: "\<exists>e. listAllReports ?e3 = Inl e" by blast
  from p2 l1 l2 r2 p3 l3 r3 show ?thesis by blast
qed

text \<open>
  The claim as it is worded fails on a bucket with the first and the third sample run: the
  summary of the first run is fetched, the listing of the third is refused, and the
  catalog returns the error instead of the report of the first run.
\<close>

theorem listAllReports_refused_run_counterexample:
  "fetchSummary (sample_env [''reports/allure-results-1/'', ''reports/allure-results-3/''])
     ''allure-results-1''
   = Inr \<lparr>statistic = \<lparr>statistic.total = 2, passed = 1, failed = 1, broken = 0, skipped = 0\<rparr>,
          time = \<lparr>start = Some (Num 10), stop = Some (Num 1000)\<rparr>,
          totalFiles = 3\<rparr> \<and>
   listAllReports (sample_env [''reports/allure-results-1/'', ''reports/allure-results-3/''])
     = Inl ''AccessDenied''"
proof -
  let ?e = "sample_env [''reports/allure-results-1/'', ''reports/allure-results-3/'']"
  have p: "list_prefixes ?e = Inr (Some [''reports/allure-results-1/'', ''reports/allure-results-3/''])"
    by (simp add: sample_env_def)
  have "listAllReports ?e = Inl ''AccessDenied''"
    by (simp add: listAllReports_def p sample_runIds sample_summary_1 sample_summary_3)
  then show ?thesis by (simp add: sample_summary_1)
qed

section \<open>The comparison\<close>

text \<open>
  Claim C3. For two reports of the list that carry the summaries \<open>A\<close> and \<open>B\<close>, each of
  the five differences of the comparison of A with B is the count of \<open>B\<close> minus the count
  of \<open>A\<close>; the comparison of B with A has the negated differences; and the comparison of A
  with itself has the difference \<open>0\<close> in every category.
\<close>

theorem generateComparison_differences:
  assumes "find (\<lambda>r. runId r = a) availableReports = Some ra" and "report.summary ra = Some A"
    and "find (\<lambda>r. runId r = b) availableReports = Some rb" and "report.summary rb = Some B"
  shows "\<exists>ab ba aa.
    generateComparison availableReports a b = Some ab \<and>
    generateComparison availableReports b a = Some ba \<and>
    generateComparison availableReports a a = Some aa \<and>
    differences.total (differences ab)
      = Num (statistic.total (statistic B) - statistic.total (statistic A)) \<and>
    differences.passed (differences ab)
      = Num (statistic.passed (statistic B) - statistic.passed (statistic A)) \<and>
    differences.failed (differences ab)
      = Num (statistic.failed (statistic B) - statistic.failed (statistic A)) \<and>
    differences.broken (differences ab)
      = Num (statistic.broken (statistic B) - statistic.broken (statistic A)) \<and>
    differences.skipped (differences ab)
      = Num (statistic.skipped (statistic B) - statistic.skipped (statistic A)) \<and>
    differences.total (differences ba)
      = Num (- (statistic.total (statistic B) - statistic.total (statistic A))) \<and>
    differences.passed (differences ba)
      = Num (- (statistic.passed (statistic B) - statistic.passed (statistic A))) \<and>
    differences.failed (differences ba)
      = Num (- (statistic.failed (statistic B) - statistic.failed (statistic A))) \<and>
    differences.broken (differences ba)
      = Num (- (statistic.broken (statistic B) - statistic.broken (statistic A))) \<and>
    differences.skipped (differences ba)
      = Num (- (statistic.skipped (statistic B) - statistic.skipped (statistic A))) \<and>
    differences.total (differences aa) = Num 0 \<and>
    differences.passed (differences aa) = Num 0 \<and>
    differences.failed (differences aa) = Num 0 \<and>
    differences.broken (differences aa) = Num 0 \<and>
    differences.skipped (differences aa) = Num 0"
  using assms by (simp add: generateComparison_def view_of_def js_minus_def Let_def)

text \<open>The scenario of the specification: from run A to run B the differences are
  \<open>0\<close>, \<open>-2\<close>, \<open>1\<close>, \<open>1\<close> and \<open>0\<close>.\<close>

theorem generateComparison_differences_witness:
  "find (\<lambda>r. runId r = ''run-A'') [run_A, run_B] = Some run_A \<and>
   report.summary run_A
     = Some \<lparr>statistic = \<lparr>statistic.total = 10, passed = 7, failed = 2, broken = 1, skipped = 0\<rparr>,
             time = \<lparr>start = Some (Num 10), stop = Some (Num 20)\<rparr>, totalFiles = 10\<rparr> \<and>
   find (\<lambda>r. runId r = ''run-B'') [run_A, run_B] = Some run_B \<and>
   report.summary run_B
     = Some \<lparr>statistic = \<lparr>statistic.total = 10, passed = 5, failed = 3, broken = 2, skipped = 0\<rparr>,
             time = \<lparr>start = Some (Num 30), stop = Some (Num 40)\<rparr>, totalFiles = 10\<rparr> \<and>
   (\<exists>ab ba aa.
      generateComparison [run_A, run_B] ''run-A'' ''run-B'' = Some ab \<and>
      generateComparison [run_A, run_B] ''run-B'' ''run-A'' = Some ba \<and>
      generateComparison [run_A, run_B] ''run-A'' ''run-A'' = Some aa \<and>
      differences.total (differences ab) = Num 0 \<and>
      differences.passed (differences ab) = Num (- 2) \<and>
      differences.failed (differences ab) = Num 1 \<and>
      differences.broken (differences ab) = Num 1 \<and>
      differences.skipped (differences ab) = Num 0 \<and>
      differences.total (differences ba) = Num 0 \<and>
      differences.passed (differences ba) = Num 2 \<and>
      differences.failed (differences ba) = Num (- 1) \<and>
      differences.broken (differences ba) = Num (- 1) \<and>
      differences.skipped (differences ba) = Num 0 \<and>
      differences.total (differences aa) = Num 0 \<and>
      differences.passed (differences aa) = Num 0 \<and>
      differences.failed (differences aa) = Num 0 \<and>
      differences.broken (differences aa) = Num 0 \<and>
      differences.skipped (differences aa) = Num 0)"
proof -
  have fa: "find (\<lambda>r. runId r = ''run-A'') [run_A, run_B] = Some run_A"
    by (simp add: run_A_def)
  have sa: "report.summary run_A
     = Some \<lparr>statistic = \<lparr>statistic.total = 10, passed = 7, failed = 2, broken = 1, skipped = 0\<rparr>,
             time = \<lparr>start = Some (Num 10), stop = Some (Num 20)\<rparr>, totalFiles = 10\<rparr>"
    by (simp add: run_A_def)
  have fb: "find (\<lambda>r. runId r = ''run-B'') [run_A, run_B] = Some run_B"
    by (simp add: run_A_def run_B_def)
  have sb: "report.summary run_B
     = Some \<lparr>statistic = \<lparr>statistic.total = 10, passed = 5, failed = 3, broken = 2, skipped = 0\<rparr>,
             time = \<lparr>start = Some (Num 30), stop = Some (Num 40)\<rparr>, totalFiles = 10\<rparr>"
    by (simp add: run_B_def)
  from generateComparison_differences [OF fa sa fb sb] obtain ab ba aa where
    "generateComparison [run_A, run_B] ''run-A'' ''run-B'' = Some ab"
    "generateComparison [run_A, run_B] ''run-B'' ''run-A'' = Some ba"
    "generateComparison [run_A, run_B] ''run-A'' ''run-A'' = Some aa"
    "differences.total (differences ab) = Num 0"
    "differences.passed (differences ab) = Num (- 2)"
    "differences.failed (differences ab) = Num 1"
    "differences.broken (differences ab) = Num 1"
    "differences.skipped (differences ab) = Num 0"
    "differences.total (differences ba) = Num 0"
    "differences.passed (differences ba) = Num 2"
    "differences.failed (differences ba) = Num (- 1)"
    "differences.broken (differences ba) = Num (- 1)"
    "differences.skipped (differences ba) = Num 0"
    "differences.total (differences aa) = Num 0"
    "differences.passed (differences aa) = Num 0"
    "differences.failed (differences aa) = Num 0"
    "differences.broken (differences aa) = Num 0"
    "differences.skipped (differences aa) = Num 0"
    by auto
  with fa sa fb sb show ?thesis by blast
qed

subsection \<open>Binary64 arithmetic\<close>

text \<open>
  The exponent brackets the number, \<open>binary64\<close> moves a number by at most half a unit
  in the last place of its significand, and it keeps the integers below \<open>2^53\<close>. The
  percentage computed in binary64 is therefore the exact percentage up to a relative error
  of \<open>2^-51\<close>.
\<close>

lemma pow2_pos: "0 < pow2 e"
  by (simp add: pow2_def)

lemma pow2_Suc: "pow2 (e + 1) = 2 * pow2 e"
proof (cases "0 \<le> e")
  case True
  then show ?thesis by (simp add: pow2_def nat_add_distrib)
next
  case False
  then have "nat (- e) = Suc (nat (- (e + 1)))" by simp
  with False show ?thesis by (auto simp: pow2_def)
qed

lemma exponent_bounds:
  assumes "x \<noteq> 0"
  shows "pow2 (exponent x) \<le> \<bar>x\<bar> \<and> \<bar>x\<bar> < pow2 (exponent x + 1)"
proof (cases "1 \<le> \<bar>x\<bar>")
  case True
  define N where "N = \<lfloor>\<bar>x\<bar>\<rfloor>"
  from True have N: "1 \<le> N" by (simp add: N_def le_floor_iff)
  then have b: "1 \<le> bitlen N" by (simp add: bitlen_ge_iff_power)
  from N bitlen_bounds [of N] have bb: "2 ^ nat (bitlen N - 1) \<le> N" "N < 2 ^ nat (bitlen N)"
    by simp_all
  have e: "exponent x = bitlen N - 1"
    using True by (simp add: exponent_def N_def)
  from bb(1) have "2 ^ nat (bitlen N - 1) \<le> real_of_int N"
    by (simp add: numeral_power_le_of_int_cancel_iff)
  moreover have "real_of_int N \<le> \<bar>x\<bar>" by (simp add: N_def)
  ultimately have "2 ^ nat (bitlen N - 1) \<le> \<bar>x\<bar>" by linarith
  with b have lo: "pow2 (exponent x) \<le> \<bar>x\<bar>"
    by (simp add: e pow2_def)
  from bb(2) have "N + 1 \<le> 2 ^ nat (bitlen N)" by simp
  then have "real_of_int (N + 1) \<le> 2 ^ nat (bitlen N)"
    by (simp only: of_int_le_numeral_power_cancel_iff)
  moreover have "\<bar>x\<bar> < real_of_int (N + 1)"
    unfolding N_def by linarith
  ultimately have "\<bar>x\<bar> < 2 ^ nat (bitlen N)" by linarith
  with b have hi: "\<bar>x\<bar> < pow2 (exponent x + 1)"
    by (simp add: e pow2_def)
  from lo hi show ?thesis ..
next
  case False
  with assms have x: "0 < \<bar>x\<bar>" "\<bar>x\<bar> < 1" by simp_all
  define y where "y = 1 / \<bar>x\<bar>"
  from x have y: "1 < y" by (simp add: y_def)
  define M where "M = \<lceil>y\<rceil>"
  from y have M: "2 \<le> M" by (simp add: M_def le_ceiling_iff)
  define c where "c = bitlen (M - 1)"
  from M have c: "1 \<le> c" by (simp add: c_def bitlen_ge_iff_power)
  from M bitlen_bounds [of "M - 1"] have bb: "2 ^ nat (c - 1) \<le> M - 1" "M - 1 < 2 ^ nat c"
    by (simp_all add: c_def)
  have e: "exponent x = - c"
    using False by (simp add: exponent_def c_def M_def y_def)
  from bb(2) have "M \<le> 2 ^ nat c" by simp
  then have "real_of_int M \<le> 2 ^ nat c" by simp
  moreover have "y \<le> real_of_int M" by (simp add: M_def)
  ultimately have "y \<le> 2 ^ nat c" by linarith
  with x have "1 / 2 ^ nat c \<le> \<bar>x\<bar>"
    by (simp add: y_def field_simps)
  with c have lo: "pow2 (exponent x) \<le> \<bar>x\<bar>"
    by (simp add: e pow2_def)
  from bb(1) have "real_of_int (2 ^ nat (c - 1)) \<le> real_of_int (M - 1)"
    by (simp only: of_int_le_iff)
  then have "2 ^ nat (c - 1) \<le> real_of_int (M - 1)"
    by (simp only: of_int_power of_int_numeral)
  moreover have "real_of_int (M - 1) < y"
    unfolding M_def by linarith
  ultimately have "2 ^ nat (c - 1) < y" by linarith
  with x have "\<bar>x\<bar> < 1 / 2 ^ nat (c - 1)"
    by (simp add: y_def field_simps)
  moreover from c have "pow2 (- c + 1) = 1 / 2 ^ nat (c - 1)"
    by (auto simp: pow2_def)
  ultimately have hi: "\<bar>x\<bar> < pow2 (exponent x + 1)"
    by (simp add: e)
  from lo hi show ?thesis ..
qed

lemma round_half_even_nearest: "\<bar>of_int (round_half_even m) - m\<bar> \<le> 1 / 2"
  by (simp add: round_half_even_def Let_def)

lemma binary64_nearest:
  assumes "x \<noteq> 0"
  shows "\<bar>binary64 x - x\<bar> \<le> pow2 (exponent x - 52) / 2"
proof -
  define ulp where "ulp = pow2 (exponent x - 52)"
  have u: "0 < ulp" by (simp add: ulp_def pow2_pos)
  have "binary64 x - x = (of_int (round_half_even (x / ulp)) - x / ulp) * ulp"
    using assms u by (simp add: binary64_def Let_def ulp_def [symmetric] field_simps)
  then have "\<bar>binary64 x - x\<bar> = \<bar>of_int (round_half_even (x / ulp)) - x / ulp\<bar> * ulp"
    using u by (simp add: abs_mult)
  also have "\<dots> \<le> 1 / 2 * ulp"
    using round_half_even_nearest [of "x / ulp"] u by (intro mult_right_mono) simp_all
  finally show ?thesis by (simp add: ulp_def)
qed


lemma pow2_power_int: "pow2 e = 2 powi e"
  by (simp add: pow2_def power_int_def inverse_eq_divide power_one_over)

lemma binary64_relative:
  "\<bar>binary64 x - x\<bar> \<le> \<bar>x\<bar> / 2 ^ 53"
proof (cases "x = 0")
  case True
  then show ?thesis by (simp add: binary64_def)
next
  case False
  have "pow2 (exponent x - 52) = pow2 (exponent x) / 2 ^ 52"
    by (simp add: pow2_power_int power_int_diff)
  with exponent_bounds [OF False] have "pow2 (exponent x - 52) \<le> \<bar>x\<bar> / 2 ^ 52"
    by (simp add: divide_right_mono)
  with binary64_nearest [OF False] show ?thesis by simp
qed

lemma percent_accuracy:
  "\<bar>js_times (js_divide d a) 100 - d / a * 100\<bar> \<le> \<bar>d / a * 100\<bar> / 2 ^ 51"
proof -
  define q where "q = d / a"
  define f where "f = binary64 q"
  have 1: "\<bar>f - q\<bar> \<le> \<bar>q\<bar> / 2 ^ 53"
    unfolding f_def by (rule binary64_relative)
  have 2: "\<bar>binary64 (f * 100) - f * 100\<bar> \<le> \<bar>f * 100\<bar> / 2 ^ 53"
    by (rule binary64_relative)
  define A where "A = \<bar>f - q\<bar>"
  define B where "B = \<bar>binary64 (f * 100) - f * 100\<bar>"
  define F where "F = \<bar>f\<bar>"
  define Q where "Q = \<bar>q\<bar>"
  have "binary64 (f * 100) - q * 100 = (binary64 (f * 100) - f * 100) + 100 * (f - q)"
    by simp
  then have t: "\<bar>binary64 (f * 100) - q * 100\<bar> \<le> B + 100 * A"
    using abs_triangle_ineq [of "binary64 (f * 100) - f * 100" "100 * (f - q)"]
    by (simp only: A_def B_def abs_mult abs_numeral)
  have 3: "F \<le> Q + A"
    using abs_triangle_ineq [of q "f - q"] by (simp add: F_def Q_def A_def)
  from 1 have 1: "A \<le> Q / 2 ^ 53" by (simp only: A_def Q_def)
  from 2 have 2: "B \<le> 100 * F / 2 ^ 53" by (simp add: B_def F_def abs_mult)
  have 4: "0 \<le> Q" by (simp add: Q_def)
  from 1 2 3 4 have "B + 100 * A \<le> 100 * Q / 2 ^ 51" by simp
  with t have "\<bar>binary64 (f * 100) - q * 100\<bar> \<le> \<bar>q * 100\<bar> / 2 ^ 51"
    by (simp add: Q_def abs_mult)
  then show ?thesis
    by (simp add: js_times_def js_divide_def q_def f_def)
qed

lemma round_half_even_of_int: "round_half_even (of_int k) = k"
  by (simp add: round_half_even_def)

lemma binary64_of_int:
  assumes "0 < n" and "n < 2 ^ 53"
  shows "binary64 (of_int n) = of_int n"
proof -
  from assms(1) have b1: "1 \<le> bitlen n"
    by (simp add: bitlen_ge_iff_power)
  from assms(2) have b2: "bitlen n \<le> 53"
    by (simp add: bitlen_le_iff_power)
  from assms(1) have e: "exponent (of_int n) = bitlen n - 1"
    by (simp add: exponent_def)
  define k where "k = nat (53 - bitlen n)"
  from b2 have ulp: "pow2 (exponent (of_int n) - 52) = 1 / 2 ^ k"
    by (auto simp: pow2_def k_def e)
  have "real_of_int n * 2 ^ k = of_int (n * 2 ^ k)"
    by simp
  then have r: "round_half_even (real_of_int n * 2 ^ k) = n * 2 ^ k"
    by (simp only: round_half_even_of_int)
  from assms(1) have "binary64 (of_int n)
      = of_int (round_half_even (real_of_int n / (1 / 2 ^ k))) * (1 / 2 ^ k)"
    by (simp add: binary64_def Let_def ulp)
  also have "\<dots> = of_int n"
    by (simp add: r)
  finally show ?thesis .
qed

lemma js_times_100_exact:
  assumes "0 < b" and "b * 100 < 2 ^ 53"
  shows "js_times (of_int b) 100 = of_int (b * 100)"
proof -
  from assms(1) have "0 < b * 100" by simp
  from binary64_of_int [OF this assms(2)] show ?thesis
    by (simp add: js_times_def)
qed

lemma decimal_nonempty: "decimal n \<noteq> []"
  by (subst decimal.simps) simp

lemma decimal_times_10: "0 < m \<Longrightarrow> decimal (10 * m) = decimal m @ ''0''"
  by (subst decimal.simps) simp

lemma toFixed1_of_int:
  assumes "0 < n"
  shows "toFixed1 (of_int n) = decimal (nat n) @ ''.0''"
proof -
  have "\<lfloor>\<bar>real_of_int n\<bar> * 10 + 1 / 2\<rfloor> = n * 10"
    using assms by (simp add: floor_unique)
  moreover from assms have "nat (n * 10) = 10 * nat n"
    by (simp add: nat_mult_distrib)
  moreover from assms have "decimal (10 * nat n) = decimal (nat n) @ ''0''"
    by (simp add: decimal_times_10)
  moreover have "1 < length (decimal (nat n) @ ''0'')"
    using decimal_nonempty [of "nat n"] by (cases "decimal (nat n)") simp_all
  ultimately show ?thesis
    using assms by (simp add: toFixed1_def Let_def)
qed

text \<open>
  Claim C4. In a row of the detail table, with \<open>a\<close> the count of the first report and
  \<open>b\<close> the count of the second (a missing count reading as \<open>0\<close>), the percent change is
  \<open>(b - a) / a * 100\<close> when \<open>a > 0\<close>, it is \<open>b * 100\<close> when \<open>a = 0\<close> and \<open>b > 0\<close>, and it
  is \<^verbatim>\<open>'N/A'\<close> when both are \<open>0\<close>. The quotient and the products are those of binary64
  arithmetic, and the number is reported as \<^verbatim>\<open>toFixed(1)\<close> prints it; as long as
  \<open>b * 100\<close> is below \<open>2^53\<close> the second case prints the digits of \<open>b * 100\<close>
  followed by \<open>.0\<close>.
\<close>

theorem percentChange_cases:
  "(0 < value_or_0 (report1 c) k \<longrightarrow>
      percentChange c k =
        toFixed1 (js_times
                    (js_divide (of_int (value_or_0 (report2 c) k - value_or_0 (report1 c) k))
                               (of_int (value_or_0 (report1 c) k)))
                    100)) \<and>
   (value_or_0 (report1 c) k = 0 \<and> 0 < value_or_0 (report2 c) k \<longrightarrow>
      percentChange c k = toFixed1 (js_times (of_int (value_or_0 (report2 c) k)) 100)) \<and>
   (value_or_0 (report1 c) k = 0 \<and> 0 < value_or_0 (report2 c) k \<and>
    value_or_0 (report2 c) k * 100 < 2 ^ 53 \<longrightarrow>
      percentChange c k = decimal (nat (value_or_0 (report2 c) k * 100)) @ ''.0'') \<and>
   (value_or_0 (report1 c) k = 0 \<and> value_or_0 (report2 c) k = 0 \<longrightarrow>
      percentChange c k = ''N/A'')"
proof -
  have exact: "toFixed1 (js_times (of_int b) 100) = decimal (nat (b * 100)) @ ''.0''"
    if "0 < b" and "b * 100 < 2 ^ 53" for b :: int
  proof -
    from that(1) have "0 < b * 100" by simp
    from toFixed1_of_int [OF this] js_times_100_exact [OF that]
    show ?thesis by (simp only:)
  qed
  show ?thesis
    using exact [of "value_or_0 (report2 c) k"]
    by (simp add: percentChange_def Let_def)
qed

text \<open>
  From run C to run D the passed tests go from 0 to 4 and the row reports \<open>400.0\<close>; the
  failed tests go from 4 to 0, a change of \<open>-100.0\<close>; no test is broken in either run.
  From run E to run F the tests go from 80 to 103: the quotient \<open>23 / 80\<close> and its
  product by \<open>100\<close> are rounded to binary64, the product is a little less than \<open>28.75\<close>,
  and the row reports \<open>28.7\<close>.
\<close>

lemma sample_comparison:
  "generateComparison [run_C, run_D] ''run-C'' ''run-D''
   = Some \<lparr>report1 = view_of run_C, report2 = view_of run_D,
           differences = \<lparr>differences.total = Num 0, passed = Num 4, failed = Num (- 4),
                           broken = Num 0, skipped = Num 0, files = Num 0\<rparr>\<rparr>"
  by (simp add: generateComparison_def run_C_def run_D_def view_of_def js_minus_def)

lemma sample_comparison_E_F:
  "generateComparison [run_E, run_F] ''run-E'' ''run-F''
   = Some \<lparr>report1 = view_of run_E, report2 = view_of run_F,
           differences = \<lparr>differences.total = Num 23, passed = Num 23, failed = Num 0,
                           broken = Num 0, skipped = Num 0, files = Num 23\<rparr>\<rparr>"
  by (simp add: generateComparison_def run_E_def run_F_def view_of_def js_minus_def)

lemmas binary64_eval =
  js_divide_def js_times_def binary64_def exponent_def compute_bitlen pow2_def
  round_half_even_def Let_def

text \<open>
  A tie goes to the even significand: \<open>2^53 + 1\<close> is rounded down and \<open>2^53 + 3\<close> is
  rounded up. \<^verbatim>\<open>toFixed(1)\<close> rounds the magnitude and takes the larger neighbour at a
  tie, and it keeps the sign of a negative number that rounds to zero.
\<close>

lemma binary64_ties_to_even:
  "binary64 9007199254740993 = 9007199254740992"
  "binary64 9007199254740995 = 9007199254740996"
  "binary64 (- 9007199254740993) = - 9007199254740992"
  by (simp_all add: binary64_eval)

lemma decimal_13: "decimal 13 = ''13''"
  by (simp add: decimal.simps)

lemma decimal_0: "decimal 0 = ''0''"
  by (simp add: decimal.simps)

lemma toFixed1_ties:
  "toFixed1 (5 / 4) = ''1.3''"
  "toFixed1 (- (5 / 4)) = ''-1.3''"
  "toFixed1 (- (1 / 100)) = ''-0.0''"
  "toFixed1 0 = ''0.0''"
  by (simp_all add: toFixed1_def decimal_13 decimal_0)

lemma js_times_4_100: "js_times 4 100 = 400"
  by (simp add: binary64_eval)

lemma js_divide_minus_4_4: "js_divide (- 4) 4 = - 1"
  by (simp add: binary64_eval)

lemma js_times_minus_1_100: "js_times (- 1) 100 = - 100"
  by (simp add: binary64_eval)

lemma js_divide_23_80: "js_divide 23 80 = 2589569785738035 / 9007199254740992"
  by (simp add: binary64_eval)

lemma js_times_23_80_100:
  "js_times (2589569785738035 / 9007199254740992) 100 = 8092405580431359 / 281474976710656"
  by (simp add: binary64_eval)

lemma decimal_4000: "decimal 4000 = ''4000''"
  by (simp add: decimal.simps)

lemma decimal_1000: "decimal 1000 = ''1000''"
  by (simp add: decimal.simps)

lemma decimal_287: "decimal 287 = ''287''"
  by (simp add: decimal.simps)

lemma toFixed1_400: "toFixed1 400 = ''400.0''"
  by (simp add: toFixed1_def decimal_4000)

lemma toFixed1_minus_100: "toFixed1 (- 100) = ''-100.0''"
  by (simp add: toFixed1_def decimal_1000)

lemma toFixed1_28_7: "toFixed1 (8092405580431359 / 281474976710656) = ''28.7''"
  by (simp add: toFixed1_def decimal_287)

theorem percentChange_cases_witness:
  "\<exists>c d. generateComparison [run_C, run_D] ''run-C'' ''run-D'' = Some c \<and>
     value_or_0 (report1 c) Passed = 0 \<and> value_or_0 (report2 c) Passed = 4 \<and>
     value_or_0 (report2 c) Passed * 100 < 2 ^ 53 \<and>
     percentChange c Passed = ''400.0'' \<and>
     value_or_0 (report1 c) Failed = 4 \<and> value_or_0 (report2 c) Failed = 0 \<and>
     percentChange c Failed = ''-100.0'' \<and>
     value_or_0 (report1 c) Broken = 0 \<and> value_or_0 (report2 c) Broken = 0 \<and>
     percentChange c Broken = ''N/A'' \<and>
     generateComparison [run_E, run_F] ''run-E'' ''run-F'' = Some d \<and>
     value_or_0 (report1 d) Total = 80 \<and> value_or_0 (report2 d) Total = 103 \<and>
     percentChange d Total = ''28.7''"
proof -
  define c where "c = \<lparr>report1 = view_of run_C, report2 = view_of run_D,
           differences = \<lparr>differences.total = Num 0, passed = Num 4, failed = Num (- 4),
                           broken = Num 0, skipped = Num 0, files = Num 0\<rparr>\<rparr>"
  define d where "d = \<lparr>report1 = view_of run_E, report2 = view_of run_F,
           differences = \<lparr>differences.total = Num 23, passed = Num 23, failed = Num 0,
                           broken = Num 0, skipped = Num 0, files = Num 23\<rparr>\<rparr>"
  have v: "value_or_0 (report1 c) Passed = 0" "value_or_0 (report2 c) Passed = 4"
    "value_or_0 (report1 c) Failed = 4" "value_or_0 (report2 c) Failed = 0"
    "value_or_0 (report1 c) Broken = 0" "value_or_0 (report2 c) Broken = 0"
    by (simp_all add: c_def value_or_0_def view_of_def run_C_def run_D_def)
  have w: "value_or_0 (report1 d) Total = 80" "value_or_0 (report2 d) Total = 103"
    by (simp_all add: d_def value_or_0_def view_of_def run_E_def run_F_def)
  have x: "value_or_0 (report2 c) Passed * 100 < 2 ^ 53"
    by (simp add: v)
  from percentChange_cases [of c Passed] v have "percentChange c Passed = ''400.0''"
    by (simp add: js_times_4_100 toFixed1_400)
  moreover from percentChange_cases [of c Failed] v have "percentChange c Failed = ''-100.0''"
    by (simp add: js_divide_minus_4_4 js_times_minus_1_100 toFixed1_minus_100)
  moreover from percentChange_cases [of c Broken] v have "percentChange c Broken = ''N/A''"
    by simp
  moreover from percentChange_cases [of d Total] w have "percentChange d Total = ''28.7''"
    by (simp add: js_divide_23_80 js_times_23_80_100 toFixed1_28_7)
  moreover have "generateComparison [run_C, run_D] ''run-C'' ''run-D'' = Some c"
    by (simp add: c_def sample_comparison)
  moreover have "generateComparison [run_E, run_F] ''run-E'' ''run-F'' = Some d"
    by (simp add: d_def sample_comparison_E_F)
  ultimately show ?thesis using v w x by blast
qed

section \<open>The cache\<close>

lemma fetchAndCacheReports_forced:
  "fetches (fetchAndCacheReports True env c) = 1"
  by (simp add: fetchAndCacheReports_def Let_def split: sum.splits)

lemma fetchAndCacheReports_stale:
  "shouldRefreshData (now_called env) c \<Longrightarrow> fetches (fetchAndCacheReports f env c) = 1"
  by (simp add: fetchAndCacheReports_def Let_def split: sum.splits)

lemma fetchAndCacheReports_fresh:
  "\<not> shouldRefreshData (now_called env) c \<Longrightarrow>
   fetchAndCacheReports False env c
     = \<lparr>returned = Inr (reports c, reports_cache.summary c), cache = c, fetches = 0\<rparr>"
  by (simp add: fetchAndCacheReports_def)

text \<open>What a call returns is what it leaves in the cache.\<close>

lemma returned_reports_cached:
  assumes "returned (fetchAndCacheReports f env c) = Inr (rs, sm)"
  shows "reports (cache (fetchAndCacheReports f env c)) = rs \<and>
         reports_cache.summary (cache (fetchAndCacheReports f env c)) = sm"
  using assms
  by (auto simp: fetchAndCacheReports_def Let_def split: if_splits sum.splits)

lemma decimal_500: "decimal 500 = ''500''"
  by (simp add: decimal.simps)

text \<open>
  Claim C5, as amended. After a call \<^verbatim>\<open>getReports(false)\<close> has returned a list of
  reports that is not empty, and with the time \<open>t0\<close> of the last fetch in the cache not
  \<open>0\<close>: a call \<^verbatim>\<open>getReports(false)\<close> made less than 5 minutes after \<open>t0\<close> does not
  fetch, returns the cached reports and summary and leaves the cache as it is; a call
  \<^verbatim>\<open>getReports(false)\<close> made more than 5 minutes after \<open>t0\<close> fetches; and a call
  \<^verbatim>\<open>getReports(true)\<close> fetches in every state of the cache.
\<close>

theorem getReports_cache_window:
  assumes "returned (getReports False env1 c0) = Inr (rs, sm)"
    and "c1 = cache (getReports False env1 c0)"
    and "rs \<noteq> []"
    and "lastFetched c1 = Some t0" and "t0 \<noteq> 0"
  shows "(now_called env2 - t0 < 5 * 60 * 1000 \<longrightarrow>
            getReports False env2 c1 = \<lparr>returned = Inr (rs, sm), cache = c1, fetches = 0\<rparr>) \<and>
         (now_called env2 - t0 > 5 * 60 * 1000 \<longrightarrow> fetches (getReports False env2 c1) = 1) \<and>
         fetches (getReports True env2 c) = 1"
proof -
  from returned_reports_cached assms(1,2)
  have c1: "reports c1 = rs" "reports_cache.summary c1 = sm"
    by (simp_all add: getReports_def)
  have fresh: "\<not> shouldRefreshData (now_called env2) c1" if "now_called env2 - t0 < 5 * 60 * 1000"
    using that c1 assms(3,4,5) by (simp add: shouldRefreshData_def truthy_def)
  have stale: "shouldRefreshData (now_called env2) c1" if "now_called env2 - t0 > 5 * 60 * 1000"
    using that assms(4) by (simp add: shouldRefreshData_def truthy_def)
  show ?thesis
    using fetchAndCacheReports_fresh [OF fresh] fetchAndCacheReports_stale [OF stale]
      fetchAndCacheReports_forced c1
    by (simp add: getReports_def)
qed

lemma first_call_one_report:
  "getReports False (call_at 1000 (Response 200 (Inr one_report))) initial_cache
   = \<lparr>returned = Inr ([\<lparr>runId = ''allure-results-1'', summary = Some empty_summary\<rparr>],
                       Some \<lparr>totalReports = 1, totalTests = 0, lastUpdated = ''2025-01-01''\<rparr>),
      cache = \<lparr>reports = [\<lparr>runId = ''allure-results-1'', summary = Some empty_summary\<rparr>],
               summary = Some \<lparr>totalReports = 1, totalTests = 0, lastUpdated = ''2025-01-01''\<rparr>,
               lastFetched = Some 1000, loading = False, error = None\<rparr>,
      fetches = 1\<rparr>"
  by (simp add: getReports_def fetchAndCacheReports_def shouldRefreshData_def truthy_def
      initial_cache_def call_at_def fetch_data_def one_report_def Let_def)

theorem getReports_cache_window_witness:
  "\<exists>c1. c1 = cache (getReports False (call_at 1000 (Response 200 (Inr one_report))) initial_cache) \<and>
     returned (getReports False (call_at 1000 (Response 200 (Inr one_report))) initial_cache)
       = Inr ([\<lparr>runId = ''allure-results-1'', summary = Some empty_summary\<rparr>],
              Some \<lparr>totalReports = 1, totalTests = 0, lastUpdated = ''2025-01-01''\<rparr>) \<and>
     lastFetched c1 = Some 1000 \<and>
     getReports False (call_at 2000 (NetworkError ''offline'')) c1
       = \<lparr>returned = Inr ([\<lparr>runId = ''allure-results-1'', summary = Some empty_summary\<rparr>],
              Some \<lparr>totalReports = 1, totalTests = 0, lastUpdated = ''2025-01-01''\<rparr>),
          cache = c1, fetches = 0\<rparr> \<and>
     fetches (getReports False (call_at 400000 (NetworkError ''offline'')) c1) = 1 \<and>
     fetches (getReports True (call_at 2000 (NetworkError ''offline'')) c1) = 1"
proof -
  define c1 where
    "c1 = cache (getReports False (call_at 1000 (Response 200 (Inr one_report))) initial_cache)"
  have r: "returned (getReports False (call_at 1000 (Response 200 (Inr one_report))) initial_cache)
       = Inr ([\<lparr>runId = ''allure-results-1'', summary = Some empty_summary\<rparr>],
              Some \<lparr>totalReports = 1, totalTests = 0, lastUpdated = ''2025-01-01''\<rparr>)"
    by (simp add: first_call_one_report)
  have n: "[\<lparr>runId = ''allure-results-1'', summary = Some empty_summary\<rparr>] \<noteq> []"
    by simp
  have t: "lastFetched c1 = Some 1000"
    by (simp add: c1_def first_call_one_report)
  have z: "(1000::int) \<noteq> 0" by simp
  note w = getReports_cache_window [OF r c1_def n t z]
  from w [of "call_at 2000 (NetworkError ''offline'')"]
  have a: "getReports False (call_at 2000 (NetworkError ''offline'')) c1
       = \<lparr>returned = Inr ([\<lparr>runId = ''allure-results-1'', summary = Some empty_summary\<rparr>],
              Some \<lparr>totalReports = 1, totalTests = 0, lastUpdated = ''2025-01-01''\<rparr>),
          cache = c1, fetches = 0\<rparr>"
    by (simp add: call_at_def)
  from w [of "call_at 400000 (NetworkError ''offline'')"]
  have b: "fetches (getReports False (call_at 400000 (NetworkError ''offline'')) c1) = 1"
    by (simp add: call_at_def)
  from w [of "call_at 2000 (NetworkError ''offline'')" c1]
  have c: "fetches (getReports True (call_at 2000 (NetworkError ''offline'')) c1) = 1"
    by simp
  from c1_def r t a b c show ?thesis by blast
qed

text \<open>
  The claim as it is worded fails when the data returned has no report: the first call, at
  time \<open>1000\<close>, fetches and returns an empty list with its summary; the second call, one
  second later, fetches again.
\<close>

theorem getReports_empty_reply_counterexample:
  "returned (getReports False (call_at 1000 (Response 200 (Inr no_reports))) initial_cache)
     = Inr ([], Some \<lparr>totalReports = 0, totalTests = 0, lastUpdated = ''2025-01-01''\<rparr>) \<and>
   fetches (getReports False (call_at 1000 (Response 200 (Inr no_reports))) initial_cache) = 1 \<and>
   lastFetched (cache (getReports False (call_at 1000 (Response 200 (Inr no_reports))) initial_cache))
     = Some 1000 \<and>
   fetches (getReports False (call_at 2000 (Response 200 (Inr no_reports)))
             (cache (getReports False (call_at 1000 (Response 200 (Inr no_reports))) initial_cache))) = 1"
  by (simp add: getReports_def fetchAndCacheReports_def shouldRefreshData_def truthy_def
      initial_cache_def call_at_def fetch_data_def no_reports_def Let_def)

text \<open>
  Claim C9. When a call fetches and the fetch fails, the call rejects with the message of
  the error and leaves a cache whose \<open>error\<close> is that message and whose \<open>loading\<close> is
  false, with the reports, the summary and the time of the last fetch as they were.
\<close>

theorem getReports_error_keeps_data:
  assumes "forceRefresh \<or> shouldRefreshData (now_called env) c"
    and "fetch_data (reply env) = Inl message"
  shows "returned (getReports forceRefresh env c) = Inl message \<and>
         fetches (getReports forceRefresh env c) = 1 \<and>
         error (cache (getReports forceRefresh env c)) = Some message \<and>
         loading (cache (getReports forceRefresh env c)) = False \<and>
         reports (cache (getReports forceRefresh env c)) = reports c \<and>
         reports_cache.summary (cache (getReports forceRefresh env c)) = reports_cache.summary c \<and>
         lastFetched (cache (getReports forceRefresh env c)) = lastFetched c"
  using assms by (auto simp: getReports_def fetchAndCacheReports_def)

theorem getReports_error_keeps_data_witness:
  "shouldRefreshData (now_called (call_at 400000 (Response 500 (Inr no_reports)))) warm_cache \<and>
   fetch_data (reply (call_at 400000 (Response 500 (Inr no_reports))))
     = Inl ''HTTP error! status: 500'' \<and>
   getReports False (call_at 400000 (Response 500 (Inr no_reports))) warm_cache
     = \<lparr>returned = Inl ''HTTP error! status: 500'',
        cache = \<lparr>reports = [run_A],
                 summary = Some \<lparr>totalReports = 1, totalTests = 10, lastUpdated = ''2025-01-01''\<rparr>,
                 lastFetched = Some 1000, loading = False,
                 error = Some ''HTTP error! status: 500''\<rparr>,
        fetches = 1\<rparr>"
proof -
  let ?env = "call_at 400000 (Response 500 (Inr no_reports))"
  have s: "shouldRefreshData (now_called ?env) warm_cache"
    by (simp add: shouldRefreshData_def truthy_def warm_cache_def call_at_def)
  then have s': "False \<or> shouldRefreshData (now_called ?env) warm_cache" by simp
  have f: "fetch_data (reply ?env) = Inl ''HTTP error! status: 500''"
    by (simp add: fetch_data_def call_at_def decimal_500)
  from getReports_error_keeps_data [OF s' f]
  have "getReports False ?env warm_cache
     = \<lparr>returned = Inl ''HTTP error! status: 500'',
        cache = \<lparr>reports = [run_A],
                 summary = Some \<lparr>totalReports = 1, totalTests = 10, lastUpdated = ''2025-01-01''\<rparr>,
                 lastFetched = Some 1000, loading = False,
                 error = Some ''HTTP error! status: 500''\<rparr>,
        fetches = 1\<rparr>"
    by (cases "getReports False ?env warm_cache"; cases "cache (getReports False ?env warm_cache)")
       (simp add: warm_cache_def)
  with s f show ?thesis by blast
qed

text \<open>
  Claim C10. With no report in the cache, \<^verbatim>\<open>getReports(false)\<close> fetches, whatever the
  time of the call and the time of the last fetch; and a fetch that succeeded with no
  report leaves such a cache, so that the next \<^verbatim>\<open>getReports(false)\<close> fetches again.
\<close>

theorem getReports_empty_cache_refetches:
  "(reports c = [] \<longrightarrow> fetches (getReports False env c) = 1) \<and>
   (fetches (getReports f env1 c0) = 1 \<and> fetch_data (reply env1) = Inr d \<and>
    (data_reports d = None \<or> data_reports d = Some [])
      \<longrightarrow> reports (cache (getReports f env1 c0)) = [] \<and>
          fetches (getReports False env (cache (getReports f env1 c0))) = 1)"
proof -
  have a: "fetches (getReports False env c) = 1" if "reports c = []" for c
    using that fetchAndCacheReports_stale [of env c False]
    by (simp add: getReports_def shouldRefreshData_def)
  have b: "reports (cache (getReports f env1 c0)) = []"
    if "fetches (getReports f env1 c0) = 1" "fetch_data (reply env1) = Inr d"
      "data_reports d = None \<or> data_reports d = Some []"
    using that by (auto simp: getReports_def fetchAndCacheReports_def Let_def split: if_splits)
  from a b show ?thesis by blast
qed

theorem getReports_empty_cache_refetches_witness:
  "reports (warm_cache\<lparr>reports := []\<rparr>) = [] \<and>
   fetches (getReports False (call_at 1001 (Response 200 (Inr no_reports)))
              (warm_cache\<lparr>reports := []\<rparr>)) = 1 \<and>
   fetches (getReports True (call_at 1000 (Response 200 (Inr no_reports))) warm_cache) = 1 \<and>
   fetch_data (reply (call_at 1000 (Response 200 (Inr no_reports)))) = Inr no_reports \<and>
   data_reports no_reports = Some [] \<and>
   reports (cache (getReports True (call_at 1000 (Response 200 (Inr no_reports))) warm_cache)) = [] \<and>
   fetches (getReports False (call_at 1001 (Response 200 (Inr no_reports)))
              (cache (getReports True (call_at 1000 (Response 200 (Inr no_reports))) warm_cache))) = 1"
proof -
  let ?e0 = "call_at 1000 (Response 200 (Inr no_reports))"
  let ?e1 = "call_at 1001 (Response 200 (Inr no_reports))"
  have h1: "reports (warm_cache\<lparr>reports := []\<rparr>) = []" by simp
  have h2: "fetches (getReports True ?e0 warm_cache) = 1"
    by (simp add: getReports_def fetchAndCacheReports_forced)
  have h3: "fetch_data (reply ?e0) = Inr no_reports"
    by (simp add: fetch_data_def call_at_def)
  have h4: "data_reports no_reports = Some []"
    by (simp add: no_reports_def)
  note w = getReports_empty_cache_refetches
      [of "warm_cache\<lparr>reports := []\<rparr>" ?e1 True ?e0 warm_cache no_reports]
  from w h1
  have a: "fetches (getReports False ?e1 (warm_cache\<lparr>reports := []\<rparr>)) = 1"
    by blast
  from w h2 h3 h4
  have b: "reports (cache (getReports True ?e0 warm_cache)) = [] \<and>
           fetches (getReports False ?e1 (cache (getReports True ?e0 warm_cache))) = 1"
    by blast
  from h1 a h2 h3 h4 b show ?thesis by blast
qed

section \<open>The download\<close>

text \<open>
  Claim C7. A request for a run whose listing succeeds with no object is answered with
  status 404 and a JSON error; the body is no archive and neither header of the ZIP
  download is set. In every response that has a header of the ZIP download or an archive
  as its body, the listing gave at least one object.
\<close>

theorem download_report_no_objects:
  \<open>(run \<noteq> [] \<and> \<not> missing (access_key env) \<and> \<not> missing (secret_key env) \<and>
    (listing env (''reports/'' @ run @ ''/'') = Inr None \<or>
     listing env (''reports/'' @ run @ ''/'') = Inr (Some []))
    \<longrightarrow> statusCode (download_report env run) = 404 \<and>
        body (download_report env run)
          = JsonBody [(''error'', ''No files found for runId: '' @ run)] \<and>
        ''Content-Disposition'' \<notin> fst ` set (headers (download_report env run)) \<and>
        (''Content-Type'', ''application/zip'') \<notin> set (headers (download_report env run))) \<and>
   ((''Content-Type'', ''application/zip'') \<in> set (headers (download_report env run)) \<or>
    ''Content-Disposition'' \<in> fst ` set (headers (download_report env run)) \<or>
    (\<exists>entries. body (download_report env run) = ZipBody entries)
    \<longrightarrow> (\<exists>keys. listing env (''reports/'' @ run @ ''/'') = Inr (Some keys) \<and> keys \<noteq> []))\<close>
  by (auto simp: download_report_def json_response_def failed_download_def Let_def
      split: sum.splits option.splits if_splits)

lemma sample_download:
  \<open>download_report one_object_storage ''allure-results-1''
   = \<lparr>statusCode = 200,
      headers = [(''Content-Type'', ''application/zip''),
                 (''Content-Disposition'', ''attachment; filename="allure-results-1.zip"'')],
      body = ZipBody [(''a-result.json'', [123, 125])]\<rparr>\<close>
  by (simp add: download_report_def one_object_storage_def missing_def)

theorem download_report_no_objects_witness:
  \<open>''allure-results-9'' \<noteq> [] \<and> \<not> missing (access_key empty_storage) \<and>
   \<not> missing (secret_key empty_storage) \<and>
   listing empty_storage (''reports/'' @ ''allure-results-9'' @ ''/'') = Inr (Some []) \<and>
   statusCode (download_report empty_storage ''allure-results-9'') = 404 \<and>
   body (download_report empty_storage ''allure-results-9'')
     = JsonBody [(''error'', ''No files found for runId: allure-results-9'')] \<and>
   (''Content-Type'', ''application/zip'')
     \<in> set (headers (download_report one_object_storage ''allure-results-1'')) \<and>
   listing one_object_storage (''reports/'' @ ''allure-results-1'' @ ''/'')
     = Inr (Some [''reports/allure-results-1/a-result.json''])\<close>
proof -
  have h: "''allure-results-9'' \<noteq> [] \<and> \<not> missing (access_key empty_storage) \<and>
    \<not> missing (secret_key empty_storage) \<and>
    (listing empty_storage (''reports/'' @ ''allure-results-9'' @ ''/'') = Inr None \<or>
     listing empty_storage (''reports/'' @ ''allure-results-9'' @ ''/'') = Inr (Some []))"
    by (simp add: empty_storage_def missing_def)
  from download_report_no_objects [of "''allure-results-9''" empty_storage] h
  have "statusCode (download_report empty_storage ''allure-results-9'') = 404 \<and>
        body (download_report empty_storage ''allure-results-9'')
          = JsonBody [(''error'', ''No files found for runId: '' @ ''allure-results-9'')]"
    by blast
  then have a: "statusCode (download_report empty_storage ''allure-results-9'') = 404 \<and>
        body (download_report empty_storage ''allure-results-9'')
          = JsonBody [(''error'', ''No files found for runId: allure-results-9'')]"
    by simp
  have z: "(''Content-Type'', ''application/zip'')
     \<in> set (headers (download_report one_object_storage ''allure-results-1''))"
    by (simp add: sample_download)
  with download_report_no_objects [of "''allure-results-1''" one_object_storage]
  obtain keys where
    "listing one_object_storage (''reports/'' @ ''allure-results-1'' @ ''/'') = Inr (Some keys)"
    "keys \<noteq> []"
    by blast
  then have b: "listing one_object_storage (''reports/'' @ ''allure-results-1'' @ ''/'')
     = Inr (Some [''reports/allure-results-1/a-result.json''])"
    by (simp add: one_object_storage_def)
  from h a z b show ?thesis by (simp add: empty_storage_def)
qed

end
